theory Spec2Isabelle
  imports Main "HOL-Library.Sublist"
begin

section \<open>Failures\<close>

text \<open>
  Every exception a modelled function can raise is a value. \<open>NotImplementedError\<close> and
  \<open>ValueError\<close> are raised by the sources themselves; \<open>IndexError\<close> and
  \<open>AttributeError\<close> are Python's own; \<open>ShapeMismatch\<close> stands for the tensor backend
  rejecting operands of incompatible shape; \<open>NoMatchingRule\<close> is the dispatcher finding no
  rule, or no single most specific one.
\<close>

datatype error =
    NotImplementedError
  | ValueError
  | IndexError
  | AttributeError
  | ShapeMismatch
  | NoMatchingRule

section \<open>Tensors\<close>

text \<open>
  A tensor is a shape and its elements in row-major order. The element type is left
  open (any type with \<open>0\<close>, \<open>+\<close> and \<open>*\<close>): rounding of floating-point arithmetic
  is not modelled.
\<close>

datatype 'a tensor = Tensor (shape: "nat list") (data: "'a list")

definition wf_tensor :: "'a tensor \<Rightarrow> bool" where
  "wf_tensor t = (length (data t) = prod_list (shape t))"

definition rank :: "'a tensor \<Rightarrow> nat" where
  "rank t = length (shape t)"

text \<open>Row-major offset of a multi-index, and the multi-index at an offset.\<close>

fun ravel :: "nat list \<Rightarrow> nat list \<Rightarrow> nat" where
  "ravel (d # ds) (i # is) = i * prod_list ds + ravel ds is"
| "ravel _ _ = 0"

fun unravel :: "nat list \<Rightarrow> nat \<Rightarrow> nat list" where
  "unravel [] k = []"
| "unravel (d # ds) k = (k div prod_list ds) # unravel ds (k mod prod_list ds)"

definition valid_index :: "nat list \<Rightarrow> nat list \<Rightarrow> bool" where
  "valid_index s idx = list_all2 (\<lambda>i d. i < d) idx s"

definition at :: "'a tensor \<Rightarrow> nat list \<Rightarrow> 'a" where
  "at t idx = data t ! ravel (shape t) idx"

definition mk :: "nat list \<Rightarrow> (nat list \<Rightarrow> 'a) \<Rightarrow> 'a tensor" where
  "mk s f = Tensor s (map (\<lambda>k. f (unravel s k)) [0..<prod_list s])"

text \<open>\<^verbatim>\<open>tf.reduce_sum(t)\<close>: the sum of all elements, a tensor of rank 0.\<close>

definition reduce_sum :: "'a::monoid_add tensor \<Rightarrow> 'a tensor" where
  "reduce_sum t = Tensor [] [sum_list (data t)]"

text \<open>
  Broadcasting of two shapes, aligned at the last axis: the axes must agree or one of
  them be 1.
\<close>

fun broadcast_rev :: "nat list \<Rightarrow> nat list \<Rightarrow> nat list option" where
  "broadcast_rev [] ys = Some ys"
| "broadcast_rev xs [] = Some xs"
| "broadcast_rev (x # xs) (y # ys) =
     (if x = y \<or> y = 1 then map_option ((#) x) (broadcast_rev xs ys)
      else if x = 1 then map_option ((#) y) (broadcast_rev xs ys)
      else None)"

definition broadcast_shape :: "nat list \<Rightarrow> nat list \<Rightarrow> nat list option" where
  "broadcast_shape s1 s2 = map_option rev (broadcast_rev (rev s1) (rev s2))"

text \<open>The index into an operand of shape \<open>s\<close> that a result index \<open>idx\<close> reads.\<close>

definition broadcast_index :: "nat list \<Rightarrow> nat list \<Rightarrow> nat list" where
  "broadcast_index s idx =
     map2 (\<lambda>d i. if d = 1 then 0 else i) s (drop (length idx - length s) idx)"

definition broadcast_op ::
  "('a \<Rightarrow> 'a \<Rightarrow> 'a) \<Rightarrow> 'a tensor \<Rightarrow> 'a tensor \<Rightarrow> error + 'a tensor" where
  "broadcast_op f a b =
     (case broadcast_shape (shape a) (shape b) of
        None \<Rightarrow> Inl ShapeMismatch
      | Some s \<Rightarrow>
          Inr (mk s (\<lambda>idx. f (at a (broadcast_index (shape a) idx))
                              (at b (broadcast_index (shape b) idx)))))"

text \<open>Python's \<^verbatim>\<open>a + b\<close> and \<^verbatim>\<open>a * b\<close> on tensors.\<close>

definition tensor_add :: "'a::plus tensor \<Rightarrow> 'a tensor \<Rightarrow> error + 'a tensor" where
  "tensor_add = broadcast_op (+)"

definition tensor_mul :: "'a::times tensor \<Rightarrow> 'a tensor \<Rightarrow> error + 'a tensor" where
  "tensor_mul = broadcast_op (*)"

section \<open>The sampling helper (gpflow/optimizers/mcmc.py)\<close>

text \<open>
  A \<^verbatim>\<open>tf.Variable\<close> is an address into a store of tensors, so that two parameters
  sharing a variable are visible as such. A transform is consumed through its two
  operations. A prior is consumed only for being present.
\<close>

type_synonym variable = nat

type_synonym 'a store = "variable \<Rightarrow> 'a tensor"

record 'a transform =
  forward :: "'a tensor \<Rightarrow> 'a tensor"
  forward_log_det_jacobian :: "'a tensor \<Rightarrow> nat \<Rightarrow> 'a tensor"

datatype prior_distribution = Prior string

record 'a Parameter =
  unconstrained_variable :: variable
  transform :: "'a transform option"
  prior :: "prior_distribution option"

text \<open>
  An element of the \<^verbatim>\<open>parameters\<close> sequence: Python does not enforce the annotation
  \<^verbatim>\<open>Sequence[Parameter]\<close>, and the constructor tests \<^verbatim>\<open>isinstance(p, Parameter)\<close>.
\<close>

datatype 'a pyarg = IsParameter "'a Parameter" | NotParameter

text \<open>
  The fields \<^verbatim>\<open>_parameters\<close>, \<^verbatim>\<open>_target_log_prob_fn\<close> and \<^verbatim>\<open>_variables\<close>. The wrapped
  callable takes no argument and reads the model, that is the store.
\<close>

record 'a SamplingHelper =
  hp_parameters :: "'a Parameter list"
  hp_target_log_prob_fn :: "'a store \<Rightarrow> error + 'a tensor"
  hp_variables :: "variable list"

fun has_prior :: "'a pyarg \<Rightarrow> bool" where
  "has_prior (IsParameter p) = (prior p \<noteq> None)"
| "has_prior NotParameter = False"

text \<open>
  \<^verbatim>\<open>__init__\<close>: the check comes first and raises; only then are the three fields set.
  Past the check every element is a Parameter.
\<close>

definition SamplingHelper_init ::
  "('a store \<Rightarrow> error + 'a tensor) \<Rightarrow> 'a pyarg list \<Rightarrow> error + 'a SamplingHelper" where
  "SamplingHelper_init target_log_prob_fn parameters =
     (if \<not> list_all has_prior parameters then Inl ValueError
      else
        let ps = [p. IsParameter p \<leftarrow> parameters] in
        Inr \<lparr> hp_parameters = ps,
              hp_target_log_prob_fn = target_log_prob_fn,
              hp_variables = map unconstrained_variable ps \<rparr>)"

definition current_state :: "'a SamplingHelper \<Rightarrow> variable list" where
  "current_state h = hp_variables h"

text \<open>
  \<^verbatim>\<open>v_old.assign(v_new)\<close>: the variable keeps its shape; a value of another shape is
  refused.
\<close>

definition assign :: "'a store \<Rightarrow> variable \<Rightarrow> 'a tensor \<Rightarrow> error + 'a store" where
  "assign \<sigma> v x = (if shape (\<sigma> v) = shape x then Inr (\<sigma>(v := x)) else Inl ValueError)"

text \<open>\<^verbatim>\<open>for v_old, v_new in zip(variables_list, variables): v_old.assign(v_new)\<close>\<close>

fun assign_all :: "'a store \<Rightarrow> variable list \<Rightarrow> 'a tensor list \<Rightarrow> error + 'a store" where
  "assign_all \<sigma> (v # vs) (x # xs) =
     (case assign \<sigma> v x of Inl e \<Rightarrow> Inl e | Inr \<sigma>' \<Rightarrow> assign_all \<sigma>' vs xs)"
| "assign_all \<sigma> _ _ = Inr \<sigma>"

text \<open>
  The loop over \<^verbatim>\<open>self._parameters\<close> that adds, for each parameter with a transform,
  \<^verbatim>\<open>tf.reduce_sum(param.transform.forward_log_det_jacobian(x, x.shape.ndims))\<close>
  to \<^verbatim>\<open>log_prob\<close>, with \<^verbatim>\<open>x = param.unconstrained_variable\<close>.
\<close>

fun jacobian_correction ::
  "'a::monoid_add store \<Rightarrow> 'a tensor \<Rightarrow> 'a Parameter list \<Rightarrow> error + 'a tensor" where
  "jacobian_correction \<sigma> log_prob [] = Inr log_prob"
| "jacobian_correction \<sigma> log_prob (param # params) =
     (case transform param of
        None \<Rightarrow> jacobian_correction \<sigma> log_prob params
      | Some t \<Rightarrow>
          let x = \<sigma> (unconstrained_variable param);
              log_det_jacobian = forward_log_det_jacobian t x (rank x)
          in case tensor_add log_prob (reduce_sum log_det_jacobian) of
               Inl e \<Rightarrow> Inl e
             | Inr log_prob' \<Rightarrow> jacobian_correction \<sigma> log_prob' params)"

text \<open>
  The closure returned by \<^verbatim>\<open>target_log_prob_fn\<close>, applied to the new values: it returns
  the log-probability and leaves the store changed. The gradient function it hands to
  \<^verbatim>\<open>tf.custom_gradient\<close> is not part of the value returned to the caller.
\<close>

definition target_log_prob_fn ::
  "'a::monoid_add SamplingHelper \<Rightarrow> 'a store \<Rightarrow> 'a tensor list \<Rightarrow> error + ('a tensor \<times> 'a store)" where
  "target_log_prob_fn h \<sigma> variables =
     (case assign_all \<sigma> (current_state h) variables of
        Inl e \<Rightarrow> Inl e
      | Inr \<sigma>' \<Rightarrow>
          (case hp_target_log_prob_fn h \<sigma>' of
             Inl e \<Rightarrow> Inl e
           | Inr log_prob \<Rightarrow>
               (case jacobian_correction \<sigma>' log_prob (hp_parameters h) of
                  Inl e \<Rightarrow> Inl e
                | Inr log_prob' \<Rightarrow> Inr (log_prob', \<sigma>'))))"

text \<open>
  The body of the loop of \<^verbatim>\<open>convert_to_constrained_values\<close>: the constrained value of
  a parameter whose unconstrained value is \<open>x\<close>.
\<close>

definition constrained_value :: "'a Parameter \<Rightarrow> 'a tensor \<Rightarrow> 'a tensor" where
  "constrained_value param hmc_variable =
     (case transform param of Some t \<Rightarrow> forward t hmc_variable | None \<Rightarrow> hmc_variable)"

definition convert_to_constrained_values ::
  "'a SamplingHelper \<Rightarrow> 'a tensor list \<Rightarrow> 'a tensor list" where
  "convert_to_constrained_values h hmc_samples =
     map2 (\<lambda>hmc_variable param. constrained_value param hmc_variable)
       hmc_samples (hp_parameters h)"

text \<open>
  For stating what \<^verbatim>\<open>target_log_prob_fn\<close> returns: the store with the variables overwritten
  in order, the sum of the log-determinants over the parameters (nothing for a parameter
  without a transform), and a tensor with a number added to every element.
\<close>

fun overwrite :: "'a store \<Rightarrow> variable list \<Rightarrow> 'a tensor list \<Rightarrow> 'a store" where
  "overwrite \<sigma> (v # vs) (x # xs) = overwrite (\<sigma>(v := x)) vs xs"
| "overwrite \<sigma> _ _ = \<sigma>"

definition log_det_jacobian_sum :: "'a::monoid_add store \<Rightarrow> 'a Parameter list \<Rightarrow> 'a" where
  "log_det_jacobian_sum \<sigma> params =
     (\<Sum>param\<leftarrow>params.
        case transform param of
          None \<Rightarrow> 0
        | Some t \<Rightarrow>
            let x = \<sigma> (unconstrained_variable param)
            in sum_list (data (forward_log_det_jacobian t x (rank x))))"

definition add_to_all :: "'a::plus tensor \<Rightarrow> 'a \<Rightarrow> 'a tensor" where
  "add_to_all t c = Tensor (shape t) (map (\<lambda>x. x + c) (data t))"

section \<open>Tensor operations used by the expectation rules\<close>

text \<open>
  The backend operations, as the TensorFlow documentation gives them. Every one checks
  the shapes it is given and fails with \<open>ShapeMismatch\<close> where the backend raises.
\<close>

definition swap_last2 :: "'x list \<Rightarrow> 'x list" where
  "swap_last2 xs =
     (let n = length xs in take (n - 2) xs @ [xs ! (n - 1), xs ! (n - 2)])"

text \<open>
  \<^verbatim>\<open>tf.linalg.adjoint(t)\<close>: the last two axes swapped (the elements are real, so
  conjugation changes nothing).
\<close>

definition adjoint :: "'a tensor \<Rightarrow> error + 'a tensor" where
  "adjoint t =
     (if rank t < 2 then Inl ShapeMismatch
      else Inr (mk (swap_last2 (shape t)) (\<lambda>idx. at t (swap_last2 idx))))"

text \<open>\<^verbatim>\<open>tf.linalg.diag(t)\<close>: the last axis becomes the diagonal of a square matrix.\<close>

definition diag :: "'a::zero tensor \<Rightarrow> error + 'a tensor" where
  "diag t =
     (if rank t < 1 then Inl ShapeMismatch
      else Inr (mk (shape t @ [last (shape t)])
                  (\<lambda>idx. if last idx = last (butlast idx) then at t (butlast idx) else 0)))"

text \<open>
  \<^verbatim>\<open>tf.linalg.matmul(a, b, transpose_a=True)\<close>: \<open>a\<close> is \<open>batch @ [k, i]\<close>, \<open>b\<close> is
  \<open>batch @ [k, j]\<close> with the same batch axes; the result is \<open>batch @ [i, j]\<close>.
\<close>

definition matmul_transpose_a :: "'a::semiring_0 tensor \<Rightarrow> 'a tensor \<Rightarrow> error + 'a tensor" where
  "matmul_transpose_a a b =
     (let sa = shape a; sb = shape b; r = length sa in
      if r < 2 \<or> length sb \<noteq> r \<or> take (r - 2) sa \<noteq> take (r - 2) sb
           \<or> sa ! (r - 2) \<noteq> sb ! (r - 2)
      then Inl ShapeMismatch
      else Inr (mk (take (r - 2) sa @ [sa ! (r - 1), sb ! (r - 1)])
                  (\<lambda>idx. let batch = take (r - 2) idx; i = idx ! (r - 2); j = idx ! (r - 1)
                         in (\<Sum>k\<leftarrow>[0..<sa ! (r - 2)]. at a (batch @ [k, i]) * at b (batch @ [k, j])))))"

text \<open>\<^verbatim>\<open>tf.tile(t, multiples)\<close>: one multiple per axis.\<close>

definition tile :: "'a tensor \<Rightarrow> nat list \<Rightarrow> error + 'a tensor" where
  "tile t multiples =
     (if length multiples \<noteq> rank t then Inl ShapeMismatch
      else Inr (mk (map2 (*) (shape t) multiples)
                  (\<lambda>idx. at t (map2 (\<lambda>i d. i mod d) idx (shape t)))))"

text \<open>
  Indexing with \<^verbatim>\<open>None\<close> inserts an axis of length 1 and leaves the elements as they
  are: \<^verbatim>\<open>t[None, :, :]\<close>, \<^verbatim>\<open>t[None, :, None]\<close>, \<^verbatim>\<open>t[:, None, :]\<close> and \<^verbatim>\<open>t[..., None]\<close>.
  A slice \<^verbatim>\<open>:\<close> needs an axis to stand for.
\<close>

definition index_None_all_all :: "'a tensor \<Rightarrow> error + 'a tensor" where
  "index_None_all_all t =
     (if rank t < 2 then Inl ShapeMismatch else Inr (Tensor (1 # shape t) (data t)))"

definition index_None_all_None :: "'a tensor \<Rightarrow> error + 'a tensor" where
  "index_None_all_None t =
     (case shape t of
        [] \<Rightarrow> Inl ShapeMismatch
      | d # ds \<Rightarrow> Inr (Tensor (1 # d # 1 # ds) (data t)))"

definition index_all_None_all :: "'a tensor \<Rightarrow> error + 'a tensor" where
  "index_all_None_all t =
     (case shape t of
        d # e # ds \<Rightarrow> Inr (Tensor (d # 1 # e # ds) (data t))
      | _ \<Rightarrow> Inl ShapeMismatch)"

definition index_ellipsis_None :: "'a tensor \<Rightarrow> 'a tensor" where
  "index_ellipsis_None t = Tensor (shape t @ [1]) (data t)"

text \<open>
  \<^verbatim>\<open>t[0]\<close>, \<^verbatim>\<open>t[:-1]\<close> and \<^verbatim>\<open>t[1:]\<close> along the first axis, on the row-major elements;
  \<^verbatim>\<open>t[0, :-1]\<close> is \<^verbatim>\<open>t[0][:-1]\<close>.
\<close>

definition index_0 :: "'a tensor \<Rightarrow> error + 'a tensor" where
  "index_0 t =
     (case shape t of
        [] \<Rightarrow> Inl ShapeMismatch
      | d # ds \<Rightarrow> if d = 0 then Inl ShapeMismatch
                 else Inr (Tensor ds (take (prod_list ds) (data t))))"

definition slice_to_minus1 :: "'a tensor \<Rightarrow> error + 'a tensor" where
  "slice_to_minus1 t =
     (case shape t of
        [] \<Rightarrow> Inl ShapeMismatch
      | d # ds \<Rightarrow> Inr (Tensor ((d - 1) # ds) (take ((d - 1) * prod_list ds) (data t))))"

definition slice_from_1 :: "'a tensor \<Rightarrow> error + 'a tensor" where
  "slice_from_1 t =
     (case shape t of
        [] \<Rightarrow> Inl ShapeMismatch
      | d # ds \<Rightarrow> Inr (Tensor ((d - 1) # ds) (drop (prod_list ds) (data t))))"

text \<open>\<^verbatim>\<open>t.shape[i]\<close>: indexing the shape beyond the rank is Python's \<open>IndexError\<close>.\<close>

definition shape_at :: "'a tensor \<Rightarrow> nat \<Rightarrow> error + nat" where
  "shape_at t i = (if i < rank t then Inr (shape t ! i) else Inl IndexError)"

definition eye :: "nat \<Rightarrow> 'a::{zero,one} tensor" where
  "eye D = mk [D, D] (\<lambda>idx. if idx ! 0 = idx ! 1 then 1 else 0)"

definition zeros :: "nat list \<Rightarrow> 'a::zero tensor" where
  "zeros s = Tensor s (replicate (prod_list s) 0)"

section \<open>Objects and classes\<close>

text \<open>
  The kernel, mean-function and feature classes are declared outside the two source
  files. A class is written as the chain of class names that leads to it from
  \<^verbatim>\<open>object\<close>, so that \<^verbatim>\<open>issubclass\<close> is the prefix relation; any further kernel or feature
  class is some longer chain. The chains below follow the imports of
  \<^verbatim>\<open>expectations/misc.py\<close> and its docstring (Identity is a subclass of the Linear mean
  function).
\<close>

type_synonym cls = "string list"

definition issubclass :: "cls \<Rightarrow> cls \<Rightarrow> bool" where
  "issubclass c d = prefix d c"

definition object_cls :: cls where "object_cls = []"
definition NoneType_cls :: cls where "NoneType_cls = [''NoneType'']"
definition MeanFunction_cls :: cls where "MeanFunction_cls = [''MeanFunction'']"
definition mfn_Linear_cls :: cls where "mfn_Linear_cls = [''MeanFunction'', ''Linear'']"
definition mfn_Identity_cls :: cls where
  "mfn_Identity_cls = [''MeanFunction'', ''Linear'', ''Identity'']"
definition mfn_Constant_cls :: cls where "mfn_Constant_cls = [''MeanFunction'', ''Constant'']"
definition Kernel_cls :: cls where "Kernel_cls = [''Kernel'']"
definition kernels_Linear_cls :: cls where "kernels_Linear_cls = [''Kernel'', ''Linear'']"
definition InducingFeature_cls :: cls where "InducingFeature_cls = [''InducingFeature'']"
definition InducingPoints_cls :: cls where
  "InducingPoints_cls = [''InducingFeature'', ''InducingPoints'']"
definition Gaussian_cls :: cls where "Gaussian_cls = [''Gaussian'']"
definition DiagonalGaussian_cls :: cls where "DiagonalGaussian_cls = [''DiagonalGaussian'']"
definition MarkovGaussian_cls :: cls where "MarkovGaussian_cls = [''MarkovGaussian'']"

text \<open>
  A Python object passed as operator or feature: \<^verbatim>\<open>None\<close>, or an instance of a class
  with its tensor-valued attributes. Reading an attribute the instance does not have is
  \<open>AttributeError\<close>.
\<close>

datatype 'a obj = PyNone | Instance cls "(string \<times> 'a tensor) list"

fun class_of :: "'a obj \<Rightarrow> cls" where
  "class_of PyNone = NoneType_cls"
| "class_of (Instance c attrs) = c"

fun getattr :: "'a obj \<Rightarrow> string \<Rightarrow> error + 'a tensor" where
  "getattr PyNone name = Inl AttributeError"
| "getattr (Instance c attrs) name =
     (case map_of attrs name of None \<Rightarrow> Inl AttributeError | Some t \<Rightarrow> Inr t)"

text \<open>
  Modelled from the spec: the constructors of the mean functions (declared in
  \<^verbatim>\<open>mean_functions.py\<close>, not among the sources). A Linear mean function holds its
  weights \<open>A\<close> and offset \<open>b\<close>, a Constant one its vector \<open>c\<close>. Identity is a subtype
  of Linear with \<open>m(x) = x\<close>: of input dimension \<open>D\<close> its \<open>A\<close> is the identity matrix
  and its \<open>b\<close> is zero.
\<close>

definition mfn_Linear :: "'a tensor \<Rightarrow> 'a tensor \<Rightarrow> 'a obj" where
  "mfn_Linear A b = Instance mfn_Linear_cls [(''A'', A), (''b'', b)]"

definition mfn_Identity :: "nat \<Rightarrow> 'a::{zero,one} obj" where
  "mfn_Identity D = Instance mfn_Identity_cls [(''A'', eye D), (''b'', zeros [D])]"

definition mfn_Constant :: "'a tensor \<Rightarrow> 'a obj" where
  "mfn_Constant c = Instance mfn_Constant_cls [(''c'', c)]"

text \<open>
  Modelled from the spec: calling a Constant mean function on inputs \<open>X\<close> (its
  \<^verbatim>\<open>__call__\<close> is not among the sources) gives the constant vector \<open>c\<close> broadcast over
  the \<open>N\<close> rows of \<open>X\<close>, of shape \<open>N \<times> Q\<close>.
\<close>

definition call_mean :: "'a obj \<Rightarrow> 'a tensor \<Rightarrow> error + 'a tensor" where
  "call_mean constant_mean X =
     (case getattr constant_mean ''c'' of
        Inl e \<Rightarrow> Inl e
      | Inr c \<Rightarrow>
          (case shape_at X 0 of
             Inl e \<Rightarrow> Inl e
           | Inr N \<Rightarrow> Inr (mk [N, length (data c)] (\<lambda>idx. data c ! (idx ! 1)))))"

text \<open>
  The three distributions, each holding \<^verbatim>\<open>mu\<close> and \<^verbatim>\<open>cov\<close>.
\<close>

datatype 'a dist =
    Gaussian (mu: "'a tensor") (cov: "'a tensor")
  | DiagonalGaussian (mu: "'a tensor") (cov: "'a tensor")
  | MarkovGaussian (mu: "'a tensor") (cov: "'a tensor")

fun class_of_dist :: "'a dist \<Rightarrow> cls" where
  "class_of_dist (Gaussian m c) = Gaussian_cls"
| "class_of_dist (DiagonalGaussian m c) = DiagonalGaussian_cls"
| "class_of_dist (MarkovGaussian m c) = MarkovGaussian_cls"

section \<open>Outcomes of an expectation\<close>

text \<open>
  A call of \<^verbatim>\<open>expectation\<close> returns a tensor, raises, or never returns: \<open>None\<close> is the
  call that does not return.
\<close>

type_synonym 'x outcome = "(error + 'x) option"

definition seq :: "'x outcome \<Rightarrow> ('x \<Rightarrow> 'y outcome) \<Rightarrow> 'y outcome" where
  "seq m k = (case m of None \<Rightarrow> None | Some (Inl e) \<Rightarrow> Some (Inl e) | Some (Inr x) \<Rightarrow> k x)"

text \<open>A backend operation always returns or raises.\<close>

definition backend :: "error + 'x \<Rightarrow> 'x outcome" where
  "backend r = Some r"

text \<open>
  A term is an operator with its feature; an operator passed bare, as in
  \<^verbatim>\<open>expectation(p, (kernel, feature), mean)\<close>, is the operator with no feature.
  \<^verbatim>\<open>nghp\<close> is an optional number. A rule takes the \<^verbatim>\<open>expectation\<close> function it calls back
  into as its first argument.
\<close>

type_synonym 'a operand = "'a obj \<times> 'a obj"

type_synonym 'a expectation_fn =
  "'a dist \<Rightarrow> 'a operand \<Rightarrow> 'a operand option \<Rightarrow> nat option \<Rightarrow> 'a tensor outcome"

type_synonym 'a rule =
  "'a expectation_fn \<Rightarrow> 'a dist \<Rightarrow> 'a obj \<Rightarrow> 'a obj \<Rightarrow> 'a obj \<Rightarrow> 'a obj \<Rightarrow> nat option
     \<Rightarrow> 'a tensor outcome"

section \<open>The rules of gpflow/expectations/misc.py\<close>

text \<open>
  Lines 16-27, \<^verbatim>\<open>(MarkovGaussian | Gaussian, Identity, NoneType, kernels.Linear,
  InducingPoints)\<close>: \<^verbatim>\<open>tf.linalg.adjoint(expectation(p, (kernel, feature), mean))\<close>.
  \<^verbatim>\<open>nghp\<close> is not passed on.
\<close>

definition E_Identity_Linear :: "'a rule" where
  "E_Identity_Linear expectation p mean none kern feature nghp =
     seq (expectation p (kern, feature) (Some (mean, PyNone)) None) (\<lambda>t. backend (adjoint t))"

text \<open>
  Lines 30-40, \<^verbatim>\<open>(MarkovGaussian | Gaussian, Kernel, InducingFeature, MeanFunction,
  NoneType)\<close>: \<^verbatim>\<open>tf.linalg.adjoint(expectation(p, mean, (kernel, feature), nghp=nghp))\<close>.
\<close>

definition E_Kernel_MeanFunction :: "'a rule" where
  "E_Kernel_MeanFunction expectation p kern feature mean none nghp =
     seq (expectation p (mean, PyNone) (Some (kern, feature)) nghp) (\<lambda>t. backend (adjoint t))"

text \<open>
  Lines 43-57, \<^verbatim>\<open>(Gaussian, Constant, NoneType, Kernel, InducingPoints)\<close>.
\<close>

definition E_Constant_Kernel :: "'a::times rule" where
  "E_Constant_Kernel expectation p constant_mean none kern feature nghp =
     seq (backend (call_mean constant_mean (mu p))) (\<lambda>c.
     seq (expectation p (kern, feature) None nghp) (\<lambda>eKxz.
     seq (backend (index_all_None_all eKxz)) (\<lambda>e.
     backend (tensor_mul (index_ellipsis_None c) e))))"

text \<open>
  Lines 60-78, \<^verbatim>\<open>(Gaussian, Linear, NoneType, Kernel, InducingPoints)\<close>.
\<close>

definition E_Linear_Kernel :: "'a::semiring_1 rule" where
  "E_Linear_Kernel expectation p linear_mean none kern feature nghp =
     seq (backend (shape_at (mu p) 0)) (\<lambda>N.
     seq (backend (shape_at (mu p) 1)) (\<lambda>D.
     seq (expectation p (mfn_Identity D, PyNone) (Some (kern, feature)) nghp) (\<lambda>exKxz.
     seq (expectation p (kern, feature) None nghp) (\<lambda>eKxz.
     seq (backend (getattr linear_mean ''A'')) (\<lambda>A.
     seq (backend (index_None_all_all A)) (\<lambda>A1.
     seq (backend (tile A1 [N, 1, 1])) (\<lambda>A_tiled.
     seq (backend (matmul_transpose_a A_tiled exKxz)) (\<lambda>eAxKxz.
     seq (backend (getattr linear_mean ''b'')) (\<lambda>b.
     seq (backend (index_None_all_None b)) (\<lambda>b1.
     seq (backend (index_all_None_all eKxz)) (\<lambda>e1.
     seq (backend (tensor_mul b1 e1)) (\<lambda>ebKxz.
     backend (tensor_add eAxKxz ebKxz)))))))))))))"

text \<open>
  Lines 81-92, \<^verbatim>\<open>(Gaussian, Identity, NoneType, Kernel, InducingPoints)\<close>:
  \<^verbatim>\<open>raise NotImplementedError\<close>.
\<close>

definition E_Identity_Kernel :: "'a rule" where
  "E_Identity_Kernel expectation p identity_mean none kern feature nghp =
     Some (Inl NotImplementedError)"

text \<open>
  Lines 99-103, \<^verbatim>\<open>(DiagonalGaussian, object, InducingFeature | NoneType, object,
  InducingFeature | NoneType)\<close>.
\<close>

definition E_DiagonalGaussian :: "'a::zero rule" where
  "E_DiagonalGaussian expectation p obj1 feat1 obj2 feat2 nghp =
     seq (backend (diag (cov p))) (\<lambda>c.
     expectation (Gaussian (mu p) c) (obj1, feat1) (Some (obj2, feat2)) nghp)"

text \<open>
  Lines 108-123, \<^verbatim>\<open>(MarkovGaussian, object, InducingFeature | NoneType, object,
  InducingFeature | NoneType)\<close>.
\<close>

definition E_MarkovGaussian :: "'a rule" where
  "E_MarkovGaussian expectation p obj1 feat1 obj2 feat2 nghp =
     (if obj2 = PyNone then
        seq (backend (slice_to_minus1 (mu p))) (\<lambda>m.
        seq (backend (index_0 (cov p))) (\<lambda>c0.
        seq (backend (slice_to_minus1 c0)) (\<lambda>c.
        expectation (Gaussian m c) (obj1, feat1) None nghp)))
      else if obj1 = PyNone then
        seq (backend (slice_from_1 (mu p))) (\<lambda>m.
        seq (backend (index_0 (cov p))) (\<lambda>c0.
        seq (backend (slice_from_1 c0)) (\<lambda>c.
        expectation (Gaussian m c) (obj2, feat2) None nghp)))
      else expectation p (obj1, feat1) (Some (obj2, feat2)) nghp)"

section \<open>The dispatcher\<close>

text \<open>
  \<^verbatim>\<open>expectations/dispatch.py\<close>, which defines \<^verbatim>\<open>expectation_dispatch\<close> and \<^verbatim>\<open>expectation\<close>,
  is not among the sources; this section follows the specification of the registry.
\<close>

text \<open>
  Modelled from the spec: a dispatch signature is the tuple of the runtime classes of
  (distribution, operator 1, feature 1, operator 2, feature 2); a rule is registered
  under a pattern of five classes and matches a signature when every class of the
  signature is a subclass of the pattern's class at that position.
\<close>

type_synonym 'a registry = "(cls list \<times> 'a rule) list"

definition matches :: "cls list \<Rightarrow> cls list \<Rightarrow> bool" where
  "matches sig pat = list_all2 issubclass sig pat"

text \<open>
  Modelled from the spec: pattern \<open>P1\<close> is at least as specific as \<open>P2\<close> when every
  signature matching \<open>P1\<close> also matches \<open>P2\<close>, that is position by position.
\<close>

definition at_least_as_specific :: "cls list \<Rightarrow> cls list \<Rightarrow> bool" where
  "at_least_as_specific p1 p2 = list_all2 issubclass p1 p2"

definition candidates :: "'a registry \<Rightarrow> cls list \<Rightarrow> 'a registry" where
  "candidates reg sig = filter (\<lambda>(pat, f). matches sig pat) reg"

text \<open>
  Modelled from the spec: \<^verbatim>\<open>resolve\<close> returns the most specific rule whose pattern
  matches, and fails (\<open>None\<close> here, \<open>NoMatchingRule\<close> to the caller) when no rule
  matches or when no single matching rule is at least as specific as every other one.
\<close>

definition resolve :: "'a registry \<Rightarrow> cls list \<Rightarrow> 'a rule option" where
  "resolve reg sig =
     (let cands = candidates reg sig;
          best = filter (\<lambda>(pat, f). list_all (\<lambda>(pat', f'). at_least_as_specific pat pat') cands)
                   cands
      in case best of [(pat, f)] \<Rightarrow> Some f | _ \<Rightarrow> None)"

text \<open>
  Modelled from the spec: \<^verbatim>\<open>expectation(distribution, term1, term2=None, nghp=None)\<close>
  builds the signature from the runtime classes of its arguments (an absent second term
  is passed on as \<^verbatim>\<open>None, None\<close>, of class \<^verbatim>\<open>NoneType\<close>), resolves the rule and invokes it
  with \<^verbatim>\<open>(distribution, term1[0], term1[1], term2[0], term2[1], nghp)\<close>; whatever the rule
  raises reaches the caller. The rule calls back into \<^verbatim>\<open>expectation\<close>, so the recursion
  depth is bounded by a counter: at depth 0 the call has not returned.
\<close>

definition signature_of :: "'a dist \<Rightarrow> 'a operand \<Rightarrow> 'a operand \<Rightarrow> cls list" where
  "signature_of p term1 term2 =
     [class_of_dist p, class_of (fst term1), class_of (snd term1),
      class_of (fst term2), class_of (snd term2)]"

definition second_term :: "'a operand option \<Rightarrow> 'a operand" where
  "second_term term2 = (case term2 of None \<Rightarrow> (PyNone, PyNone) | Some t \<Rightarrow> t)"

primrec expectation :: "nat \<Rightarrow> 'a registry \<Rightarrow> 'a expectation_fn" where
  "expectation 0 reg = (\<lambda>p term1 term2 nghp. None)"
| "expectation (Suc n) reg = (\<lambda>p term1 term2 nghp.
     let t2 = second_term term2 in
     case resolve reg (signature_of p term1 t2) of
       None \<Rightarrow> Some (Inl NoMatchingRule)
     | Some rule \<Rightarrow> rule (expectation n reg) p (fst term1) (snd term1) (fst t2) (snd t2) nghp)"

text \<open>
  Modelled from the spec: the decorator \<^verbatim>\<open>expectation_dispatch\<close> registers a function
  under the pattern given by its parameter annotations, once for every choice among the
  alternatives of a \<^verbatim>\<open>Union\<close>.
\<close>

definition expectation_dispatch :: "cls list list \<Rightarrow> 'a rule \<Rightarrow> 'a registry" where
  "expectation_dispatch annotations f = map (\<lambda>pat. (pat, f)) (product_lists annotations)"

text \<open>The seven registrations of \<^verbatim>\<open>expectations/misc.py\<close>, in the order of the file.\<close>

definition misc_rules :: "'a::semiring_1 registry" where
  "misc_rules =
     expectation_dispatch
       [[MarkovGaussian_cls, Gaussian_cls], [mfn_Identity_cls], [NoneType_cls],
        [kernels_Linear_cls], [InducingPoints_cls]] E_Identity_Linear
   @ expectation_dispatch
       [[MarkovGaussian_cls, Gaussian_cls], [Kernel_cls], [InducingFeature_cls],
        [MeanFunction_cls], [NoneType_cls]] E_Kernel_MeanFunction
   @ expectation_dispatch
       [[Gaussian_cls], [mfn_Constant_cls], [NoneType_cls], [Kernel_cls],
        [InducingPoints_cls]] E_Constant_Kernel
   @ expectation_dispatch
       [[Gaussian_cls], [mfn_Linear_cls], [NoneType_cls], [Kernel_cls],
        [InducingPoints_cls]] E_Linear_Kernel
   @ expectation_dispatch
       [[Gaussian_cls], [mfn_Identity_cls], [NoneType_cls], [Kernel_cls],
        [InducingPoints_cls]] E_Identity_Kernel
   @ expectation_dispatch
       [[DiagonalGaussian_cls], [object_cls], [InducingFeature_cls, NoneType_cls],
        [object_cls], [InducingFeature_cls, NoneType_cls]] E_DiagonalGaussian
   @ expectation_dispatch
       [[MarkovGaussian_cls], [object_cls], [InducingFeature_cls, NoneType_cls],
        [object_cls], [InducingFeature_cls, NoneType_cls]] E_MarkovGaussian"

section \<open>Notions for stating the properties\<close>

text \<open>
  For stating which rule wins: every rule of \<open>reg\<close> that matches \<open>sig\<close> is strictly less
  specific than the pattern \<open>pat\<close>. And the pattern of a conversion rule that a feature,
  or \<^verbatim>\<open>None\<close> in its place, selects.
\<close>

definition outranks :: "cls list \<Rightarrow> 'a registry \<Rightarrow> cls list \<Rightarrow> bool" where
  "outranks pat reg sig =
     list_all (\<lambda>(pat', f). at_least_as_specific pat pat' \<and> \<not> at_least_as_specific pat' pat)
       (candidates reg sig)"

definition feature_pattern :: "cls \<Rightarrow> cls" where
  "feature_pattern c =
     (if issubclass c InducingFeature_cls then InducingFeature_cls else NoneType_cls)"

definition is_feature_or_None :: "'a obj \<Rightarrow> bool" where
  "is_feature_or_None f =
     (issubclass (class_of f) InducingFeature_cls \<or> class_of f = NoneType_cls)"

text \<open>
  For stating what the MarkovGaussian rule converts to: the Gaussian of the first
  \<open>N - 1\<close> steps (the rows \<open>0, \<dots>, N - 2\<close> of the mean and of the first covariance block)
  and the Gaussian of the last \<open>N - 1\<close> steps (the rows \<open>1, \<dots>, N - 1\<close>).
\<close>

definition first_steps :: "'a tensor \<Rightarrow> 'a tensor \<Rightarrow> 'a dist" where
  "first_steps m cv =
     Gaussian (mk ((shape m ! 0 - 1) # drop 1 (shape m)) (at m))
              (mk ((shape cv ! 1 - 1) # drop 2 (shape cv)) (\<lambda>idx. at cv (0 # idx)))"

definition last_steps :: "'a tensor \<Rightarrow> 'a tensor \<Rightarrow> 'a dist" where
  "last_steps m cv =
     Gaussian (mk ((shape m ! 0 - 1) # drop 1 (shape m)) (\<lambda>idx. at m (Suc (hd idx) # tl idx)))
              (mk ((shape cv ! 1 - 1) # drop 2 (shape cv))
                 (\<lambda>idx. at cv (0 # Suc (hd idx) # tl idx)))"

section \<open>Indexing lemmas\<close>

lemma valid_index_Cons [simp]:
  "valid_index (d # ds) idx = (\<exists>i is. idx = i # is \<and> i < d \<and> valid_index ds is)"
  by (cases idx) (auto simp: valid_index_def)

lemma valid_index_Nil [simp]: "valid_index [] idx = (idx = [])"
  by (simp add: valid_index_def)

lemma valid_index_length: "valid_index s idx \<Longrightarrow> length idx = length s"
  by (simp add: valid_index_def list_all2_lengthD)

lemma ravel_less: "valid_index s idx \<Longrightarrow> ravel s idx < prod_list s"
proof (induction s arbitrary: idx)
  case Nil
  then show ?case by simp
next
  case (Cons d ds)
  then obtain i "is" where idx: "idx = i # is" and i: "i < d" and v: "valid_index ds is"
    by auto
  from Cons.IH [OF v] have r: "ravel ds is < prod_list ds" .
  have "i * prod_list ds + ravel ds is < i * prod_list ds + prod_list ds"
    using r by simp
  also have "\<dots> = Suc i * prod_list ds" by simp
  also have "\<dots> \<le> d * prod_list ds"
    using i by (intro mult_le_mono1) simp
  finally show ?case by (simp add: idx)
qed

lemma unravel_ravel: "valid_index s idx \<Longrightarrow> unravel s (ravel s idx) = idx"
proof (induction s arbitrary: idx)
  case Nil
  then show ?case by simp
next
  case (Cons d ds)
  then obtain i "is" where idx: "idx = i # is" and i: "i < d" and v: "valid_index ds is"
    by auto
  from ravel_less [OF v] have r: "ravel ds is < prod_list ds" .
  then show ?case using Cons.IH [OF v] by (simp add: idx)
qed

lemma prod_list_pos: "k < d * (p::nat) \<Longrightarrow> 0 < p"
  by (cases p) auto

lemma ravel_unravel: "k < prod_list s \<Longrightarrow> ravel s (unravel s k) = k"
proof (induction s arbitrary: k)
  case Nil
  then show ?case by simp
next
  case (Cons d ds)
  then have "0 < prod_list ds" using prod_list_pos [of k d "prod_list ds"] by simp
  then have "k mod prod_list ds < prod_list ds" by simp
  from Cons.IH [OF this] show ?case by simp
qed

lemma valid_unravel: "k < prod_list s \<Longrightarrow> valid_index s (unravel s k)"
proof (induction s arbitrary: k)
  case Nil
  then show ?case by simp
next
  case (Cons d ds)
  then have p: "0 < prod_list ds" using prod_list_pos [of k d "prod_list ds"] by simp
  then have "k mod prod_list ds < prod_list ds" by simp
  from Cons.IH [OF this] have v: "valid_index ds (unravel ds (k mod prod_list ds))" .
  have "k div prod_list ds < d"
    using Cons.prems p by (simp add: less_mult_imp_div_less)
  with v show ?case by simp
qed

lemma shape_mk [simp]: "shape (mk s f) = s"
  by (simp add: mk_def)

lemma wf_mk [simp]: "wf_tensor (mk s f)"
  by (simp add: mk_def wf_tensor_def)

lemma at_mk: "valid_index s idx \<Longrightarrow> at (mk s f) idx = f idx"
  using ravel_less [of s idx] by (simp add: at_def mk_def unravel_ravel)

lemma mk_cong: "(\<And>idx. valid_index s idx \<Longrightarrow> f idx = g idx) \<Longrightarrow> mk s f = mk s g"
  by (simp add: mk_def valid_unravel)

lemma mk_at: "wf_tensor t \<Longrightarrow> mk (shape t) (at t) = t"
proof (cases t)
  case (Tensor s xs)
  assume "wf_tensor t"
  with Tensor have len: "length xs = prod_list s" by (simp add: wf_tensor_def)
  have "map (\<lambda>k. xs ! ravel s (unravel s k)) [0..<prod_list s] = map ((!) xs) [0..<length xs]"
    unfolding len by (rule map_cong) (simp_all add: ravel_unravel)
  then show ?thesis by (simp add: Tensor mk_def at_def map_nth)
qed

lemma broadcast_shape_scalar: "broadcast_shape s [] = Some s"
  by (cases "rev s") (simp_all add: broadcast_shape_def)

lemma broadcast_index_self:
  "valid_index s idx \<Longrightarrow> broadcast_index s idx = idx"
proof -
  assume v: "valid_index s idx"
  then have len: "length idx = length s" by (rule valid_index_length)
  from v have "map2 (\<lambda>d i. if d = 1 then 0 else i) s idx = idx"
    unfolding valid_index_def
    by (induction idx s rule: list_all2_induct) auto
  then show ?thesis by (simp add: broadcast_index_def len)
qed

lemma tensor_add_scalar:
  assumes "wf_tensor a"
  shows "tensor_add a (Tensor [] [c]) = Inr (Tensor (shape a) (map (\<lambda>x. x + c) (data a)))"
proof -
  have "mk (shape a) (\<lambda>idx. at a (broadcast_index (shape a) idx) + at (Tensor [] [c]) (broadcast_index [] idx))
      = mk (shape a) (\<lambda>idx. at a idx + c)"
    by (rule mk_cong) (simp add: broadcast_index_self, simp add: broadcast_index_def at_def)
  also have "\<dots> = Tensor (shape a) (map (\<lambda>x. x + c) (data (mk (shape a) (at a))))"
    by (simp add: mk_def)
  finally show ?thesis
    using assms by (simp add: tensor_add_def broadcast_op_def broadcast_shape_scalar mk_at)
qed


section \<open>Properties of the sampling helper\<close>

text \<open>
  C8. Whatever the wrapped callable, a parameter list with an element whose prior is
  absent makes the constructor raise \<open>ValueError\<close>: no helper is built, so none of its
  fields is set and nothing can be sampled from it.
\<close>

theorem init_rejects_missing_prior:
  assumes "IsParameter p \<in> set parameters" and "prior p = None"
  shows "SamplingHelper_init f parameters = Inl ValueError"
proof -
  from assms(2) have "\<not> has_prior (IsParameter p)" by simp
  with assms(1) have "\<not> list_all has_prior parameters"
    unfolding list_all_iff by blast
  then show ?thesis by (simp add: SamplingHelper_init_def)
qed

theorem init_rejects_missing_prior_witness:
  "SamplingHelper_init (\<lambda>\<sigma>. Inr (\<sigma> 0))
     [IsParameter \<lparr> unconstrained_variable = 0, transform = None, prior = Some (Prior ''gamma'') \<rparr>,
      IsParameter \<lparr> unconstrained_variable = 1, transform = None, prior = None \<rparr>]
   = (Inl ValueError :: error + int SamplingHelper)"
  by (rule init_rejects_missing_prior
        [where p = "\<lparr> unconstrained_variable = 1, transform = None, prior = None \<rparr>"])
     simp_all

lemma overwrite_other: "v \<notin> set vs \<Longrightarrow> overwrite \<sigma> vs xs v = \<sigma> v"
  by (induction \<sigma> vs xs rule: overwrite.induct) auto

lemma overwrite_map:
  "distinct vs \<Longrightarrow> length vs = length xs \<Longrightarrow> map (overwrite \<sigma> vs xs) vs = xs"
  by (induction \<sigma> vs xs rule: overwrite.induct) (auto simp: overwrite_other)

lemma assign_all_overwrite:
  "distinct vs \<Longrightarrow> list_all2 (\<lambda>v x. shape (\<sigma> v) = shape x) vs xs \<Longrightarrow>
   assign_all \<sigma> vs xs = Inr (overwrite \<sigma> vs xs)"
proof (induction \<sigma> vs xs rule: overwrite.induct)
  case (1 \<sigma> v vs x xs)
  from "1.prems" have d: "distinct vs" and nv: "v \<notin> set vs" and sh: "shape (\<sigma> v) = shape x"
    and rest: "list_all2 (\<lambda>v x. shape (\<sigma> v) = shape x) vs xs"
    by simp_all
  have "list_all2 (\<lambda>v' y. shape ((\<sigma>(v := x)) v') = shape y) vs xs"
    unfolding list_all2_conv_all_nth
  proof (intro conjI allI impI)
    show "length vs = length xs" using rest by (rule list_all2_lengthD)
  next
    fix i assume i: "i < length vs"
    then have "vs ! i \<noteq> v" using nv by (metis nth_mem)
    moreover have "shape (\<sigma> (vs ! i)) = shape (xs ! i)"
      using rest i by (simp add: list_all2_conv_all_nth)
    ultimately show "shape ((\<sigma>(v := x)) (vs ! i)) = shape (xs ! i)" by simp
  qed
  from "1.IH" [OF d this] have "assign_all (\<sigma>(v := x)) vs xs = Inr (overwrite (\<sigma>(v := x)) vs xs)" .
  with sh show ?case by (simp add: assign_def del: fun_upd_apply)
qed simp_all

lemma wf_add_to_all: "wf_tensor t \<Longrightarrow> wf_tensor (add_to_all t c)"
  by (simp add: wf_tensor_def add_to_all_def)

lemma jacobian_correction_sum:
  fixes log_prob :: "'a::monoid_add tensor"
  shows "wf_tensor log_prob \<Longrightarrow>
    jacobian_correction \<sigma> log_prob params
      = Inr (add_to_all log_prob (log_det_jacobian_sum \<sigma> params))"
proof (induction params arbitrary: log_prob)
  case Nil
  then show ?case by (cases log_prob) (simp add: log_det_jacobian_sum_def add_to_all_def)
next
  case (Cons p ps)
  show ?case
  proof (cases "transform p")
    case None
    with Cons show ?thesis by (simp add: log_det_jacobian_sum_def)
  next
    case (Some t)
    define c where "c = sum_list (data (forward_log_det_jacobian t
      (\<sigma> (unconstrained_variable p)) (rank (\<sigma> (unconstrained_variable p)))))"
    have step: "tensor_add log_prob (reduce_sum (forward_log_det_jacobian t
      (\<sigma> (unconstrained_variable p)) (rank (\<sigma> (unconstrained_variable p)))))
       = Inr (add_to_all log_prob c)"
      using Cons.prems by (simp add: reduce_sum_def tensor_add_scalar add_to_all_def c_def)
    have "add_to_all (add_to_all log_prob c) (log_det_jacobian_sum \<sigma> ps)
        = add_to_all log_prob (c + log_det_jacobian_sum \<sigma> ps)"
      by (simp add: add_to_all_def add.assoc)
    with Cons.IH [OF wf_add_to_all [OF Cons.prems, of c]] step Some
    show ?thesis by (simp add: log_det_jacobian_sum_def c_def Let_def)
  qed
qed

lemma map2_map_same: "map2 f (map g ps) ps = map (\<lambda>p. f (g p) p) ps"
  by (induction ps) simp_all

lemma init_Inr:
  "SamplingHelper_init f parameters = Inr h \<Longrightarrow>
     hp_target_log_prob_fn h = f \<and> hp_variables h = map unconstrained_variable (hp_parameters h)"
  by (auto simp: SamplingHelper_init_def Let_def split: if_splits)

text \<open>
  C7. For a helper built by the constructor, with as many new values as variables, each
  of the shape of its variable, and no variable shared between two parameters: the
  function returned by \<^verbatim>\<open>target_log_prob_fn\<close> first overwrites every variable with its
  new value, so that each parameter's constrained value is the transform of its new
  value; it returns the wrapped callable evaluated in that store plus, for every
  parameter with a transform, the sum of the elements of the log-determinant of the
  forward Jacobian at that parameter's unconstrained value.
\<close>

theorem target_log_prob_fn_value:
  fixes log_prob :: "'a::monoid_add tensor"
  assumes init: "SamplingHelper_init f parameters = Inr h"
    and shapes: "list_all2 (\<lambda>v x. shape (\<sigma> v) = shape x) (current_state h) variables"
    and dist: "distinct (current_state h)"
    and run: "f (overwrite \<sigma> (current_state h) variables) = Inr log_prob"
    and wf: "wf_tensor log_prob"
  shows "target_log_prob_fn h \<sigma> variables
           = Inr (add_to_all log_prob
                    (log_det_jacobian_sum (overwrite \<sigma> (current_state h) variables) (hp_parameters h)),
                  overwrite \<sigma> (current_state h) variables)
       \<and> map (overwrite \<sigma> (current_state h) variables) (current_state h) = variables
       \<and> map (\<lambda>param. constrained_value param
                 (overwrite \<sigma> (current_state h) variables (unconstrained_variable param)))
             (hp_parameters h)
           = convert_to_constrained_values h variables"
proof -
  let ?\<sigma> = "overwrite \<sigma> (current_state h) variables"
  from init_Inr [OF init] have f: "hp_target_log_prob_fn h = f"
    and vars: "current_state h = map unconstrained_variable (hp_parameters h)"
    by (simp_all add: current_state_def)
  from shapes have len: "length (current_state h) = length variables"
    by (rule list_all2_lengthD)
  have a: "assign_all \<sigma> (current_state h) variables = Inr ?\<sigma>"
    by (rule assign_all_overwrite [OF dist shapes])
  have b: "map ?\<sigma> (current_state h) = variables"
    by (rule overwrite_map [OF dist len])
  have c: "target_log_prob_fn h \<sigma> variables
      = Inr (add_to_all log_prob (log_det_jacobian_sum ?\<sigma> (hp_parameters h)), ?\<sigma>)"
    by (simp add: target_log_prob_fn_def a f run jacobian_correction_sum [OF wf])
  from b have "variables = map (\<lambda>param. ?\<sigma> (unconstrained_variable param)) (hp_parameters h)"
    by (simp add: vars comp_def)
  then have "convert_to_constrained_values h variables
      = map2 (\<lambda>hmc_variable param. constrained_value param hmc_variable)
          (map (\<lambda>param. ?\<sigma> (unconstrained_variable param)) (hp_parameters h)) (hp_parameters h)"
    unfolding convert_to_constrained_values_def by (rule arg_cong)
  then have d: "map (\<lambda>param. constrained_value param (?\<sigma> (unconstrained_variable param)))
             (hp_parameters h) = convert_to_constrained_values h variables"
    by (simp only: map2_map_same)
  show ?thesis by (intro conjI) (rule c, rule b, rule d)
qed


theorem target_log_prob_fn_value_witness:
  "(case target_log_prob_fn
      \<lparr> hp_parameters =
          [\<lparr> unconstrained_variable = 0,
             transform = Some \<lparr> forward = (\<lambda>x. x), forward_log_det_jacobian = (\<lambda>x n. x) \<rparr>,
             prior = Some (Prior ''gamma'') \<rparr>,
           \<lparr> unconstrained_variable = 1, transform = None, prior = Some (Prior ''normal'') \<rparr>],
        hp_target_log_prob_fn = (\<lambda>\<sigma>. Inr (\<sigma> 1)),
        hp_variables = [0, 1] \<rparr>
      (\<lambda>v. Tensor [] [0::int])
      [Tensor [] [3], Tensor [] [4]]
    of Inl e \<Rightarrow> False
     | Inr (log_prob, \<sigma>') \<Rightarrow> log_prob = Tensor [] [7] \<and> map \<sigma>' [0, 1] = [Tensor [] [3], Tensor [] [4]])"
proof -
  let ?ps = "[\<lparr> unconstrained_variable = 0,
             transform = Some \<lparr> forward = (\<lambda>x. x), forward_log_det_jacobian = (\<lambda>x n. x) \<rparr>,
             prior = Some (Prior ''gamma'') \<rparr>,
           \<lparr> unconstrained_variable = 1, transform = None, prior = Some (Prior ''normal'') \<rparr>]
           :: int Parameter list"
  let ?f = "\<lambda>\<sigma> :: int store. (Inr (\<sigma> 1) :: error + int tensor)"
  let ?h = "\<lparr> hp_parameters = ?ps, hp_target_log_prob_fn = ?f, hp_variables = [0, 1] \<rparr>"
  have init: "SamplingHelper_init ?f (map IsParameter ?ps) = Inr ?h"
    by (simp add: SamplingHelper_init_def)
  have shapes: "list_all2 (\<lambda>v x. shape ((\<lambda>v. Tensor [] [0::int]) v) = shape x)
      (current_state ?h) [Tensor [] [3], Tensor [] [4]]"
    by (simp add: current_state_def)
  have dist: "distinct (current_state ?h)"
    by (simp add: current_state_def)
  have run: "?f (overwrite (\<lambda>v. Tensor [] [0::int]) (current_state ?h) [Tensor [] [3], Tensor [] [4]])
      = Inr (Tensor [] [4])"
    by (simp add: current_state_def)
  have wf: "wf_tensor (Tensor [] [4::int])"
    by (simp add: wf_tensor_def)
  from target_log_prob_fn_value [OF init shapes dist run wf]
  show ?thesis
    by (simp add: current_state_def log_det_jacobian_sum_def add_to_all_def)
qed

section \<open>Lemmas on the backend operations\<close>

lemma valid_index3:
  "valid_index [a, b, c] idx \<Longrightarrow> (\<And>i j k. idx = [i, j, k] \<Longrightarrow> i < a \<Longrightarrow> j < b \<Longrightarrow> k < c \<Longrightarrow> P) \<Longrightarrow> P"
  by auto

lemma tensor_add_same_shape:
  "tensor_add (mk s f) (mk s g) = Inr (mk s (\<lambda>idx. f idx + g idx))"
proof -
  have "broadcast_shape s s = Some s"
  proof -
    have "broadcast_rev xs xs = Some xs" for xs :: "nat list"
      by (induction xs) simp_all
    then show ?thesis by (simp add: broadcast_shape_def)
  qed
  moreover have "mk s (\<lambda>idx. at (mk s f) (broadcast_index s idx) + at (mk s g) (broadcast_index s idx))
      = mk s (\<lambda>idx. f idx + g idx)"
    by (rule mk_cong) (simp add: broadcast_index_self at_mk)
  ultimately show ?thesis by (simp add: tensor_add_def broadcast_op_def)
qed

lemma tile_batch:
  assumes "shape A = [D, Q]"
  shows "tile (Tensor (Suc 0 # shape A) (data A)) [N, Suc 0, Suc 0] = Inr (mk [N, D, Q] (\<lambda>idx. at A [idx ! 1, idx ! 2]))"
proof -
  have "mk [N, D, Q] (\<lambda>idx. at (Tensor [1, D, Q] (data A)) (map2 (\<lambda>i d. i mod d) idx [1, D, Q]))
      = mk [N, D, Q] (\<lambda>idx. at A [idx ! 1, idx ! 2])"
    by (rule mk_cong, erule valid_index3) (simp add: at_def assms)
  then show ?thesis by (simp add: tile_def rank_def assms)
qed

lemma matmul_batch:
  fixes ex :: "'a::semiring_0 tensor"
  assumes "shape ex = [N, D, M]"
  shows "matmul_transpose_a (mk [N, D, Q] f) ex
     = Inr (mk [N, Q, M] (\<lambda>idx. \<Sum>k\<leftarrow>[0..<D]. f [idx ! 0, k, idx ! 1] * at ex [idx ! 0, k, idx ! 2]))"
proof -
  have "mk [N, Q, M] (\<lambda>idx. \<Sum>k\<leftarrow>[0..<D]. at (mk [N, D, Q] f) (take (Suc 0) idx @ [k, idx ! Suc 0])
                                         * at ex (take (Suc 0) idx @ [k, idx ! Suc (Suc 0)]))
      = mk [N, Q, M] (\<lambda>idx. \<Sum>k\<leftarrow>[0..<D]. f [idx ! 0, k, idx ! 1] * at ex [idx ! 0, k, idx ! 2])"
  proof (rule mk_cong, erule valid_index3)
    fix idx n q m assume idx: "idx = [n, q, m]" and n: "n < N" and q: "q < Q" and m: "m < M"
    have *: "at (mk [N, D, Q] f) [n, k, q] = f [n, k, q]" if "k < D" for k
      using that n q by (simp add: at_mk)
    have eq: "map (\<lambda>k. at (mk [N, D, Q] f) [n, k, q] * at ex [n, k, m]) [0..<D]
        = map (\<lambda>k. f [n, k, q] * at ex [n, k, m]) [0..<D]"
      by (rule map_cong) (simp_all add: *)
    show "(\<Sum>k\<leftarrow>[0..<D]. at (mk [N, D, Q] f) (take (Suc 0) idx @ [k, idx ! Suc 0])
                              * at ex (take (Suc 0) idx @ [k, idx ! Suc (Suc 0)]))
        = (\<Sum>k\<leftarrow>[0..<D]. f [idx ! 0, k, idx ! 1] * at ex [idx ! 0, k, idx ! 2])"
      by (simp add: idx eq)
  qed
  then show ?thesis by (simp add: matmul_transpose_a_def assms Let_def eval_nat_numeral)
qed

lemma outer_b:
  fixes b e :: "'a::times tensor"
  assumes "shape b = [Q]" "shape e = [N, M]"
  shows "tensor_mul (Tensor [Suc 0, Q, Suc 0] (data b)) (Tensor [N, Suc 0, M] (data e))
     = Inr (mk [N, Q, M] (\<lambda>idx. at b [idx ! 1] * at e [idx ! 0, idx ! 2]))"
proof -
  have s: "broadcast_shape [1, Q, 1] [N, 1, M] = Some [N, Q, M]"
    by (simp add: broadcast_shape_def)
  have "mk [N, Q, M] (\<lambda>idx. at (Tensor [1, Q, 1] (data b)) (broadcast_index [1, Q, 1] idx)
                            * at (Tensor [N, 1, M] (data e)) (broadcast_index [N, 1, M] idx))
      = mk [N, Q, M] (\<lambda>idx. at b [idx ! 1] * at e [idx ! 0, idx ! 2])"
    by (rule mk_cong, erule valid_index3) (auto simp: at_def assms broadcast_index_def)
  with s show ?thesis by (simp add: tensor_mul_def broadcast_op_def)
qed

lemma take_map_nth: "n \<le> length xs \<Longrightarrow> take n xs = map ((!) xs) [0..<n]"
  by (simp add: list_eq_iff_nth_eq)

lemma drop_map_nth: "drop k xs = map (\<lambda>i. xs ! (k + i)) [0..<length xs - k]"
  by (simp add: list_eq_iff_nth_eq)

lemma ravel_head: "ravel (d # ds) idx = ravel (d' # ds) idx"
  by (cases idx) simp_all

lemma slice_to_minus1_mk:
  assumes wf: "wf_tensor t" and s: "shape t = d # ds"
  shows "slice_to_minus1 t = Inr (mk ((d - 1) # ds) (at t))"
proof -
  have len: "(d - 1) * prod_list ds \<le> length (data t)"
    using wf by (simp add: wf_tensor_def s)
  have eq: "map (\<lambda>k. data t ! ravel (d # ds) (unravel ((d - 1) # ds) k)) [0..<(d - 1) * prod_list ds]
      = map ((!) (data t)) [0..<(d - 1) * prod_list ds]"
  proof (rule map_cong [OF refl])
    fix k assume "k \<in> set [0..<(d - 1) * prod_list ds]"
    then have "k < prod_list ((d - 1) # ds)" by simp
    then have "ravel ((d - 1) # ds) (unravel ((d - 1) # ds) k) = k" by (rule ravel_unravel)
    then show "data t ! ravel (d # ds) (unravel ((d - 1) # ds) k) = data t ! k"
      by (simp only: ravel_head [of d ds _ "d - 1"])
  qed
  have L: "slice_to_minus1 t = Inr (Tensor ((d - 1) # ds) (take ((d - 1) * prod_list ds) (data t)))"
    by (simp add: slice_to_minus1_def s)
  have "mk ((d - 1) # ds) (at t)
      = Tensor ((d - 1) # ds)
          (map (\<lambda>k. data t ! ravel (d # ds) (unravel ((d - 1) # ds) k)) [0..<(d - 1) * prod_list ds])"
    by (simp add: mk_def at_def s)
  also have "\<dots> = Tensor ((d - 1) # ds) (take ((d - 1) * prod_list ds) (data t))"
    by (simp only: eq take_map_nth [OF len])
  finally show ?thesis unfolding L by (rule arg_cong [OF sym])
qed

lemma slice_from_1_mk:
  assumes wf: "wf_tensor t" and s: "shape t = d # ds"
  shows "slice_from_1 t = Inr (mk ((d - 1) # ds) (\<lambda>idx. at t (Suc (hd idx) # tl idx)))"
proof -
  have len: "length (data t) - prod_list ds = (d - 1) * prod_list ds"
    using wf by (simp add: wf_tensor_def s diff_mult_distrib)
  have eq: "map (\<lambda>k. data t ! ravel (d # ds) (Suc (hd (unravel ((d - 1) # ds) k)) # tl (unravel ((d - 1) # ds) k)))
          [0..<(d - 1) * prod_list ds]
      = map (\<lambda>k. data t ! (prod_list ds + k)) [0..<(d - 1) * prod_list ds]"
  proof (rule map_cong [OF refl])
    fix k assume "k \<in> set [0..<(d - 1) * prod_list ds]"
    then have k: "k < (d - 1) * prod_list ds" by simp
    then have "0 < prod_list ds" by (rule prod_list_pos)
    then have "k mod prod_list ds < prod_list ds" by simp
    then have "ravel ds (unravel ds (k mod prod_list ds)) = k mod prod_list ds"
      by (rule ravel_unravel)
    then show "data t ! ravel (d # ds) (Suc (hd (unravel ((d - 1) # ds) k)) # tl (unravel ((d - 1) # ds) k))
        = data t ! (prod_list ds + k)"
      by (simp add: add.assoc)
  qed
  have L: "slice_from_1 t = Inr (Tensor ((d - 1) # ds) (drop (prod_list ds) (data t)))"
    by (simp add: slice_from_1_def s)
  have "mk ((d - 1) # ds) (\<lambda>idx. at t (Suc (hd idx) # tl idx))
      = Tensor ((d - 1) # ds)
          (map (\<lambda>k. data t ! ravel (d # ds) (Suc (hd (unravel ((d - 1) # ds) k)) # tl (unravel ((d - 1) # ds) k)))
             [0..<(d - 1) * prod_list ds])"
    by (simp add: mk_def at_def s)
  also have "\<dots> = Tensor ((d - 1) # ds) (drop (prod_list ds) (data t))"
    by (simp only: eq drop_map_nth [of "prod_list ds" "data t"] len)
  finally show ?thesis unfolding L by (rule arg_cong [OF sym])
qed

lemma index_0_mk:
  assumes wf: "wf_tensor t" and s: "shape t = Suc d # ds"
  shows "index_0 t = Inr (mk ds (\<lambda>idx. at t (0 # idx)))"
proof -
  have len: "prod_list ds \<le> length (data t)"
    using wf by (simp add: wf_tensor_def s)
  have eq: "map (\<lambda>k. data t ! ravel (Suc d # ds) (0 # unravel ds k)) [0..<prod_list ds]
      = map ((!) (data t)) [0..<prod_list ds]"
    by (rule map_cong [OF refl]) (simp add: ravel_unravel)
  have L: "index_0 t = Inr (Tensor ds (take (prod_list ds) (data t)))"
    by (simp add: index_0_def s)
  have "mk ds (\<lambda>idx. at t (0 # idx))
      = Tensor ds (map (\<lambda>k. data t ! ravel (Suc d # ds) (0 # unravel ds k)) [0..<prod_list ds])"
    by (simp only: mk_def at_def s)
  also have "\<dots> = Tensor ds (take (prod_list ds) (data t))"
    by (simp only: eq take_map_nth [OF len])
  finally show ?thesis unfolding L by (rule arg_cong [OF sym])
qed

lemma valid_index_head_mono:
  "valid_index ((d - 1) # ds) idx \<Longrightarrow> valid_index (d # ds) idx"
  by auto

lemma valid_index_head_Suc:
  "valid_index ((d - 1) # ds) idx \<Longrightarrow> valid_index (d # ds) (Suc (hd idx) # tl idx)"
  by auto

lemma diag_matrix:
  assumes "shape v = [N, D]"
  shows "diag v = Inr (mk [N, D, D] (\<lambda>idx. if idx ! 1 = idx ! 2 then at v [idx ! 0, idx ! 1] else 0))"
proof -
  have "mk [N, D, D] (\<lambda>idx. if last idx = last (butlast idx) then at v (butlast idx) else 0)
      = mk [N, D, D] (\<lambda>idx. if idx ! 1 = idx ! 2 then at v [idx ! 0, idx ! 1] else 0)"
    by (rule mk_cong, erule valid_index3) auto
  then show ?thesis by (simp add: diag_def rank_def assms)
qed

section \<open>Lemmas on the dispatcher\<close>

lemma seq_simps [simp]:
  "seq None k = None"
  "seq (Some (Inl e)) k = Some (Inl e)"
  "seq (Some (Inr x)) k = k x"
  "seq (backend (Inl e)) k = Some (Inl e)"
  "seq (backend (Inr x)) k = k x"
  by (simp_all add: seq_def backend_def)

lemma markov_slices:
  assumes m: "wf_tensor m" "shape m = N # ms"
    and cv: "wf_tensor cv" "shape cv = Suc B # N' # cs"
  shows "seq (backend (slice_to_minus1 m)) (\<lambda>m'.
         seq (backend (index_0 cv)) (\<lambda>c0.
         seq (backend (slice_to_minus1 c0)) (\<lambda>c'. k (Gaussian m' c')))) = k (first_steps m cv)"
    and "seq (backend (slice_from_1 m)) (\<lambda>m'.
         seq (backend (index_0 cv)) (\<lambda>c0.
         seq (backend (slice_from_1 c0)) (\<lambda>c'. k (Gaussian m' c')))) = k (last_steps m cv)"
proof -
  let ?c0 = "mk (N' # cs) (\<lambda>idx. at cv (0 # idx))"
  have c0: "index_0 cv = Inr ?c0" by (rule index_0_mk [OF cv])
  have "slice_to_minus1 ?c0 = Inr (mk ((N' - 1) # cs) (at ?c0))"
    by (rule slice_to_minus1_mk) simp_all
  moreover have "mk ((N' - 1) # cs) (at ?c0) = mk ((N' - 1) # cs) (\<lambda>idx. at cv (0 # idx))"
    by (rule mk_cong) (simp add: at_mk [OF valid_index_head_mono])
  ultimately have a: "slice_to_minus1 ?c0 = Inr (mk ((N' - 1) # cs) (\<lambda>idx. at cv (0 # idx)))"
    by (simp only:)
  have "slice_from_1 ?c0 = Inr (mk ((N' - 1) # cs) (\<lambda>idx. at ?c0 (Suc (hd idx) # tl idx)))"
    by (rule slice_from_1_mk) simp_all
  moreover have "mk ((N' - 1) # cs) (\<lambda>idx. at ?c0 (Suc (hd idx) # tl idx))
      = mk ((N' - 1) # cs) (\<lambda>idx. at cv (0 # Suc (hd idx) # tl idx))"
    by (rule mk_cong) (simp add: at_mk [OF valid_index_head_Suc])
  ultimately have b: "slice_from_1 ?c0
      = Inr (mk ((N' - 1) # cs) (\<lambda>idx. at cv (0 # Suc (hd idx) # tl idx)))"
    by (simp only:)
  have f: "first_steps m cv
      = Gaussian (mk ((N - 1) # ms) (at m)) (mk ((N' - 1) # cs) (\<lambda>idx. at cv (0 # idx)))"
    by (simp add: first_steps_def m cv)
  have l: "last_steps m cv
      = Gaussian (mk ((N - 1) # ms) (\<lambda>idx. at m (Suc (hd idx) # tl idx)))
          (mk ((N' - 1) # cs) (\<lambda>idx. at cv (0 # Suc (hd idx) # tl idx)))"
    by (simp add: last_steps_def m cv)
  show "seq (backend (slice_to_minus1 m)) (\<lambda>m'.
         seq (backend (index_0 cv)) (\<lambda>c0.
         seq (backend (slice_to_minus1 c0)) (\<lambda>c'. k (Gaussian m' c')))) = k (first_steps m cv)"
    by (simp only: seq_simps slice_to_minus1_mk [OF m] c0 a f)
  show "seq (backend (slice_from_1 m)) (\<lambda>m'.
         seq (backend (index_0 cv)) (\<lambda>c0.
         seq (backend (slice_from_1 c0)) (\<lambda>c'. k (Gaussian m' c')))) = k (last_steps m cv)"
    by (simp only: seq_simps slice_from_1_mk [OF m] c0 b l)
qed

lemma getattr_mfn_Linear [simp]:
  "getattr (mfn_Linear A b) ''A'' = Inr A" "getattr (mfn_Linear A b) ''b'' = Inr b"
  by (simp_all add: mfn_Linear_def)

lemma candidates_append: "candidates (r1 @ r2) sig = candidates r1 sig @ candidates r2 sig"
  by (simp add: candidates_def)

lemma issubclass_refl [simp]: "issubclass c c"
  by (simp add: issubclass_def)

lemma at_least_as_specific_refl [simp]: "at_least_as_specific p p"
  by (simp add: at_least_as_specific_def list_all2_same)

lemma resolve_most_specific:
  assumes c: "candidates reg sig = xs @ (pat, f) # ys"
    and xs: "list_all (\<lambda>(pat', f'). at_least_as_specific pat pat' \<and> \<not> at_least_as_specific pat' pat) xs"
    and ys: "list_all (\<lambda>(pat', f'). at_least_as_specific pat pat' \<and> \<not> at_least_as_specific pat' pat) ys"
  shows "resolve reg sig = Some f"
proof -
  let ?P = "\<lambda>(pat'', f'' :: 'a rule).
    list_all (\<lambda>(pat', f'). at_least_as_specific pat'' pat') (xs @ (pat, f) # ys)"
  have 1: "filter ?P xs = []"
    using xs by (auto simp: filter_empty_conv list_all_iff)
  have 2: "filter ?P ys = []"
    using ys by (auto simp: filter_empty_conv list_all_iff)
  have 3: "?P (pat, f)"
    using xs ys by (auto simp: list_all_iff)
  have "filter ?P (xs @ (pat, f) # ys) = [(pat, f)]"
    using 1 2 3 by simp
  then show ?thesis by (simp add: resolve_def c)
qed

lemma resolve_misc_extra:
  assumes c: "candidates misc_rules sig = xs @ [(pat, f)]"
    and xs: "list_all (\<lambda>(pat', f'). at_least_as_specific pat pat' \<and> \<not> at_least_as_specific pat' pat) xs"
    and extra: "outranks pat extra sig"
  shows "resolve (misc_rules @ extra) sig = Some f"
  using resolve_most_specific [of "misc_rules @ extra" sig xs pat f "candidates extra sig"]
    c xs extra by (simp add: candidates_append outranks_def)

lemma expectation_Suc:
  "expectation (Suc n) reg p (obj1, feat1) term2 nghp =
     (case resolve reg [class_of_dist p, class_of obj1, class_of feat1,
                        class_of (fst (second_term term2)), class_of (snd (second_term term2))] of
        None \<Rightarrow> Some (Inl NoMatchingRule)
      | Some rule \<Rightarrow> rule (expectation n reg) p obj1 feat1
                       (fst (second_term term2)) (snd (second_term term2)) nghp)"
  by (simp add: signature_of_def Let_def split: option.split)

lemma expectation_second_term:
  "expectation n reg p term1 (Some (second_term term2)) nghp = expectation n reg p term1 term2 nghp"
  by (cases n) (simp_all add: second_term_def split: option.split)

lemmas cls_defs = object_cls_def NoneType_cls_def MeanFunction_cls_def mfn_Linear_cls_def
  mfn_Identity_cls_def mfn_Constant_cls_def Kernel_cls_def kernels_Linear_cls_def
  InducingFeature_cls_def InducingPoints_cls_def Gaussian_cls_def DiagonalGaussian_cls_def
  MarkovGaussian_cls_def

lemmas dispatch_defs = misc_rules_def expectation_dispatch_def candidates_def matches_def
  at_least_as_specific_def issubclass_def

lemma subclass_Identity_E:
  assumes "issubclass c mfn_Identity_cls"
  obtains r where "c = ''MeanFunction'' # ''Linear'' # ''Identity'' # r"
  using assms by (auto simp: issubclass_def mfn_Identity_cls_def elim!: prefixE)

lemma subclass_Kernel_E:
  assumes "issubclass c Kernel_cls"
  obtains r where "c = ''Kernel'' # r"
  using assms by (auto simp: issubclass_def Kernel_cls_def elim!: prefixE)

lemma subclass_kernels_Linear_E:
  assumes "issubclass c kernels_Linear_cls"
  obtains r where "c = ''Kernel'' # ''Linear'' # r"
  using assms by (auto simp: issubclass_def kernels_Linear_cls_def elim!: prefixE)

lemma subclass_InducingPoints_E:
  assumes "issubclass c InducingPoints_cls"
  obtains r where "c = ''InducingFeature'' # ''InducingPoints'' # r"
  using assms by (auto simp: issubclass_def InducingPoints_cls_def elim!: prefixE)

lemma subclass_InducingFeature_E:
  assumes "issubclass c InducingFeature_cls"
  obtains r where "c = ''InducingFeature'' # r"
  using assms by (auto simp: issubclass_def InducingFeature_cls_def elim!: prefixE)

lemma feature_or_None_cases:
  assumes "issubclass cf InducingFeature_cls \<or> cf = NoneType_cls"
  obtains r where "cf = ''InducingFeature'' # r" "feature_pattern cf = InducingFeature_cls"
    | "cf = [''NoneType'']" "feature_pattern cf = NoneType_cls"
  using assms
  by (auto simp: issubclass_def InducingFeature_cls_def NoneType_cls_def feature_pattern_def
      elim!: prefixE)

lemma candidates_misc_identity_kernel:
  assumes "issubclass cm mfn_Identity_cls" "issubclass ck Kernel_cls"
    "\<not> issubclass ck kernels_Linear_cls" "issubclass cf InducingPoints_cls"
  shows "candidates (misc_rules :: 'a::semiring_1 registry) [Gaussian_cls, cm, NoneType_cls, ck, cf]
    = [([Gaussian_cls, mfn_Linear_cls, NoneType_cls, Kernel_cls, InducingPoints_cls], E_Linear_Kernel),
       ([Gaussian_cls, mfn_Identity_cls, NoneType_cls, Kernel_cls, InducingPoints_cls], E_Identity_Kernel)]"
proof -
  from assms(1) obtain rm where cm: "cm = ''MeanFunction'' # ''Linear'' # ''Identity'' # rm"
    by (auto simp: issubclass_def mfn_Identity_cls_def elim!: prefixE)
  from assms(2) obtain rk where ck: "ck = ''Kernel'' # rk"
    by (auto simp: issubclass_def Kernel_cls_def elim!: prefixE)
  from assms(3) have rk: "\<not> prefix [''Linear''] rk"
    by (simp add: issubclass_def kernels_Linear_cls_def ck)
  from assms(4) obtain rf where cf: "cf = ''InducingFeature'' # ''InducingPoints'' # rf"
    by (auto simp: issubclass_def InducingPoints_cls_def elim!: prefixE)
  show ?thesis
    by (simp add: dispatch_defs cls_defs cm ck cf rk)
qed

lemma resolve_identity_kernel:
  fixes extra :: "'a::semiring_1 registry"
  assumes "issubclass cm mfn_Identity_cls" "issubclass ck Kernel_cls"
    "\<not> issubclass ck kernels_Linear_cls" "issubclass cf InducingPoints_cls"
    and "outranks [Gaussian_cls, mfn_Identity_cls, NoneType_cls, Kernel_cls, InducingPoints_cls]
           extra [Gaussian_cls, cm, NoneType_cls, ck, cf]"
  shows "resolve (misc_rules @ extra) [Gaussian_cls, cm, NoneType_cls, ck, cf] = Some E_Identity_Kernel"
proof (rule resolve_misc_extra [OF _ _ assms(5)])
  show "candidates misc_rules [Gaussian_cls, cm, NoneType_cls, ck, cf]
      = [([Gaussian_cls, mfn_Linear_cls, NoneType_cls, Kernel_cls, InducingPoints_cls], E_Linear_Kernel)]
        @ [([Gaussian_cls, mfn_Identity_cls, NoneType_cls, Kernel_cls, InducingPoints_cls], E_Identity_Kernel)]"
    using candidates_misc_identity_kernel [OF assms(1-4)] by simp
  show "list_all (\<lambda>(pat', f'). at_least_as_specific [Gaussian_cls, mfn_Identity_cls, NoneType_cls, Kernel_cls, InducingPoints_cls] pat'
          \<and> \<not> at_least_as_specific pat' [Gaussian_cls, mfn_Identity_cls, NoneType_cls, Kernel_cls, InducingPoints_cls])
        [([Gaussian_cls, mfn_Linear_cls, NoneType_cls, Kernel_cls, InducingPoints_cls], E_Linear_Kernel :: 'a rule)]"
    by (simp add: at_least_as_specific_def issubclass_def cls_defs)
qed

lemma resolve_linear_kernel:
  fixes extra :: "'a::semiring_1 registry"
  assumes ck: "issubclass ck Kernel_cls" and cf: "issubclass cf InducingPoints_cls"
    and extra: "outranks [Gaussian_cls, mfn_Linear_cls, NoneType_cls, Kernel_cls, InducingPoints_cls]
           extra [Gaussian_cls, mfn_Linear_cls, NoneType_cls, ck, cf]"
  shows "resolve (misc_rules @ extra) [Gaussian_cls, mfn_Linear_cls, NoneType_cls, ck, cf]
           = Some E_Linear_Kernel"
proof -
  from ck obtain rk where rk: "ck = ''Kernel'' # rk" by (rule subclass_Kernel_E)
  from cf obtain rf where rf: "cf = ''InducingFeature'' # ''InducingPoints'' # rf"
    by (rule subclass_InducingPoints_E)
  have "candidates (misc_rules :: 'a registry) [Gaussian_cls, mfn_Linear_cls, NoneType_cls, ck, cf]
      = [] @ [([Gaussian_cls, mfn_Linear_cls, NoneType_cls, Kernel_cls, InducingPoints_cls], E_Linear_Kernel)]"
    by (simp add: dispatch_defs cls_defs rk rf)
  from resolve_misc_extra [OF this _ extra] show ?thesis by simp
qed

lemma resolve_identity_linear:
  fixes extra :: "'a::semiring_1 registry"
  assumes cd: "cd = Gaussian_cls \<or> cd = MarkovGaussian_cls"
    and cm: "issubclass cm mfn_Identity_cls"
    and ck: "issubclass ck kernels_Linear_cls" and cf: "issubclass cf InducingPoints_cls"
    and extra: "outranks [cd, mfn_Identity_cls, NoneType_cls, kernels_Linear_cls, InducingPoints_cls]
           extra [cd, cm, NoneType_cls, ck, cf]"
  shows "resolve (misc_rules @ extra) [cd, cm, NoneType_cls, ck, cf] = Some E_Identity_Linear"
proof -
  from cm obtain rm where rm: "cm = ''MeanFunction'' # ''Linear'' # ''Identity'' # rm"
    by (rule subclass_Identity_E)
  from ck obtain rk where rk: "ck = ''Kernel'' # ''Linear'' # rk"
    by (rule subclass_kernels_Linear_E)
  from cf obtain rf where rf: "cf = ''InducingFeature'' # ''InducingPoints'' # rf"
    by (rule subclass_InducingPoints_E)
  let ?pat = "[cd, mfn_Identity_cls, NoneType_cls, kernels_Linear_cls, InducingPoints_cls]"
  let ?less = "\<lambda>(pat', f' :: 'a rule). at_least_as_specific ?pat pat' \<and> \<not> at_least_as_specific pat' ?pat"
  from cd have "\<exists>ys. candidates (misc_rules :: 'a registry) [cd, cm, NoneType_cls, ck, cf]
      = [] @ (?pat, E_Identity_Linear) # ys \<and> list_all ?less ys"
    by (elim disjE) (simp_all add: dispatch_defs cls_defs rm rk rf)
  then obtain ys where c: "candidates (misc_rules :: 'a registry) [cd, cm, NoneType_cls, ck, cf]
      = [] @ (?pat, E_Identity_Linear) # ys" and ys: "list_all ?less ys"
    by blast
  from extra have e: "list_all ?less (candidates extra [cd, cm, NoneType_cls, ck, cf])"
    by (simp add: outranks_def)
  have "candidates (misc_rules @ extra) [cd, cm, NoneType_cls, ck, cf]
      = [] @ (?pat, E_Identity_Linear) # (ys @ candidates extra [cd, cm, NoneType_cls, ck, cf])"
    by (simp add: candidates_append c)
  from resolve_most_specific [OF this] ys e show ?thesis by simp
qed

lemma candidates_misc_diagonal:
  assumes f1: "issubclass cf1 InducingFeature_cls \<or> cf1 = NoneType_cls"
    and f2: "issubclass cf2 InducingFeature_cls \<or> cf2 = NoneType_cls"
  shows "candidates (misc_rules :: 'a::semiring_1 registry) [DiagonalGaussian_cls, c1, cf1, c2, cf2]
     = [] @ [([DiagonalGaussian_cls, object_cls, feature_pattern cf1, object_cls, feature_pattern cf2],
              E_DiagonalGaussian)]"
  using f1
proof (cases rule: feature_or_None_cases)
  case (1 r1)
  from f2 show ?thesis
    by (cases rule: feature_or_None_cases) (simp_all add: 1(1) feature_pattern_def dispatch_defs cls_defs)
next
  case 2
  from f2 show ?thesis
    by (cases rule: feature_or_None_cases) (simp_all add: 2(1) feature_pattern_def dispatch_defs cls_defs)
qed

lemma candidates_misc_markov_term1:
  assumes f1: "issubclass cf1 InducingFeature_cls \<or> cf1 = NoneType_cls"
  shows "candidates (misc_rules :: 'a::semiring_1 registry)
           [MarkovGaussian_cls, c1, cf1, NoneType_cls, NoneType_cls]
     = [] @ [([MarkovGaussian_cls, object_cls, feature_pattern cf1, object_cls, NoneType_cls],
              E_MarkovGaussian)]"
  using f1
  by (cases rule: feature_or_None_cases) (simp_all add: feature_pattern_def dispatch_defs cls_defs)

lemma candidates_misc_markov_term2:
  assumes f2: "issubclass cf2 InducingFeature_cls \<or> cf2 = NoneType_cls"
  shows "candidates (misc_rules :: 'a::semiring_1 registry)
           [MarkovGaussian_cls, NoneType_cls, NoneType_cls, c2, cf2]
     = [] @ [([MarkovGaussian_cls, object_cls, NoneType_cls, object_cls, feature_pattern cf2],
              E_MarkovGaussian)]"
  using f2
  by (cases rule: feature_or_None_cases) (simp_all add: feature_pattern_def dispatch_defs cls_defs)

section \<open>Properties of the expectation rules\<close>

text \<open>
  C1. For a Gaussian, an Identity mean function, an InducingPoints feature and a kernel
  that is not a Linear kernel, where every other registered rule that matches the call is
  less specific than the Identity guard: the guard itself raises \<open>NotImplementedError\<close>
  whatever \<^verbatim>\<open>expectation\<close> it is handed (it calls nothing), and \<^verbatim>\<open>expectation\<close> resolves the
  call to the guard, not to the Linear-mean rule, and returns that failure unchanged at
  every recursion depth.
\<close>

theorem identity_kernel_guard:
  fixes mean kern feature :: "'a::semiring_1 obj"
  assumes "issubclass (class_of mean) mfn_Identity_cls"
    and "issubclass (class_of kern) Kernel_cls"
    and "\<not> issubclass (class_of kern) kernels_Linear_cls"
    and "issubclass (class_of feature) InducingPoints_cls"
    and "outranks [Gaussian_cls, mfn_Identity_cls, NoneType_cls, Kernel_cls, InducingPoints_cls]
           extra [Gaussian_cls, class_of mean, NoneType_cls, class_of kern, class_of feature]"
  shows "E_Identity_Kernel E (Gaussian m c) mean PyNone kern feature nghp = Some (Inl NotImplementedError)
       \<and> expectation (Suc n) (misc_rules @ extra) (Gaussian m c) (mean, PyNone) (Some (kern, feature)) nghp
           = Some (Inl NotImplementedError)"
  using resolve_identity_kernel [OF assms]
  by (simp add: expectation_Suc second_term_def E_Identity_Kernel_def del: expectation.simps)

theorem identity_kernel_guard_witness:
  "expectation 1
     (misc_rules @
      [([Gaussian_cls, Kernel_cls, InducingPoints_cls, NoneType_cls, NoneType_cls],
        \<lambda>E p obj1 feat1 obj2 feat2 nghp. Some (Inr (Tensor [1, 1] [5])))])
     (Gaussian (Tensor [1, 2] [1, 2]) (Tensor [1, 2, 2] [1, 0, 0, 1]))
     (mfn_Identity 2, PyNone)
     (Some (Instance [''Kernel'', ''RBF''] [], Instance InducingPoints_cls [(''Z'', Tensor [1, 2] [0, 0])]))
     (Some 20)
   = (Some (Inl NotImplementedError) :: int tensor outcome)"
proof -
  have "E_Identity_Kernel (\<lambda>p t1 t2 g. None) (Gaussian (Tensor [1, 2] [1, 2]) (Tensor [1, 2, 2] [1, 0, 0, 1]))
          (mfn_Identity 2) PyNone (Instance [''Kernel'', ''RBF''] [])
          (Instance InducingPoints_cls [(''Z'', Tensor [1, 2] [0, 0])]) (Some 20)
        = (Some (Inl NotImplementedError) :: int tensor outcome)
      \<and> expectation (Suc 0)
     (misc_rules @
      [([Gaussian_cls, Kernel_cls, InducingPoints_cls, NoneType_cls, NoneType_cls],
        \<lambda>E p obj1 feat1 obj2 feat2 nghp. Some (Inr (Tensor [1, 1] [5])))])
     (Gaussian (Tensor [1, 2] [1, 2]) (Tensor [1, 2, 2] [1, 0, 0, 1]))
     (mfn_Identity 2, PyNone)
     (Some (Instance [''Kernel'', ''RBF''] [], Instance InducingPoints_cls [(''Z'', Tensor [1, 2] [0, 0])]))
     (Some 20)
   = (Some (Inl NotImplementedError) :: int tensor outcome)"
    by (rule identity_kernel_guard)
       (simp_all add: mfn_Identity_def outranks_def dispatch_defs cls_defs)
  then show ?thesis by simp
qed

text \<open>
  C2. For a Gaussian or MarkovGaussian, an Identity mean function, a Linear kernel and an
  InducingPoints feature, where every other registered rule that matches the call is less
  specific than the transpose rule: \<^verbatim>\<open>expectation(p, mean, (kernel, feature))\<close> is the
  adjoint of \<^verbatim>\<open>expectation(p, (kernel, feature), mean)\<close>, the latter called one level
  deeper and without \<^verbatim>\<open>nghp\<close>; a failure of the delegated call is passed on.
\<close>

theorem identity_linear_is_adjoint:
  fixes mean kern feature :: "'a::semiring_1 obj"
  assumes "class_of_dist p = Gaussian_cls \<or> class_of_dist p = MarkovGaussian_cls"
    and "issubclass (class_of mean) mfn_Identity_cls"
    and "issubclass (class_of kern) kernels_Linear_cls"
    and "issubclass (class_of feature) InducingPoints_cls"
    and "outranks [class_of_dist p, mfn_Identity_cls, NoneType_cls, kernels_Linear_cls, InducingPoints_cls]
           extra [class_of_dist p, class_of mean, NoneType_cls, class_of kern, class_of feature]"
  shows "E_Identity_Linear E p mean PyNone kern feature nghp
           = seq (E p (kern, feature) (Some (mean, PyNone)) None) (\<lambda>t. backend (adjoint t))
       \<and> expectation (Suc n) (misc_rules @ extra) p (mean, PyNone) (Some (kern, feature)) nghp
           = seq (expectation n (misc_rules @ extra) p (kern, feature) (Some (mean, PyNone)) None)
               (\<lambda>t. backend (adjoint t))"
  using resolve_identity_linear [OF assms]
  by (simp add: expectation_Suc second_term_def E_Identity_Linear_def del: expectation.simps)

theorem identity_linear_is_adjoint_witness:
  "expectation (Suc (Suc 0))
     (misc_rules @
      [([Gaussian_cls, kernels_Linear_cls, InducingPoints_cls, mfn_Identity_cls, NoneType_cls],
        \<lambda>E p obj1 feat1 obj2 feat2 nghp. Some (Inr (Tensor [1, 1, 2] [3, 4])))])
     (Gaussian (Tensor [1, 2] [1, 2]) (Tensor [1, 2, 2] [1, 0, 0, 1]))
     (mfn_Identity 2, PyNone)
     (Some (Instance kernels_Linear_cls [], Instance InducingPoints_cls []))
     (Some 20)
   = Some (Inr (Tensor [1, 2, 1] [3, 4 :: int]))"
proof -
  let ?reg = "misc_rules @
      [([Gaussian_cls, kernels_Linear_cls, InducingPoints_cls, mfn_Identity_cls, NoneType_cls],
        \<lambda>E p obj1 feat1 obj2 feat2 nghp. Some (Inr (Tensor [1, 1, 2] [3, 4 :: int])))]"
  let ?p = "Gaussian (Tensor [1, 2] [1, 2]) (Tensor [1, 2, 2] [1, 0, 0, 1 :: int])"
  have "E_Identity_Linear (\<lambda>p t1 t2 g. None) ?p (mfn_Identity 2) PyNone
          (Instance kernels_Linear_cls []) (Instance InducingPoints_cls []) (Some 20)
           = seq ((\<lambda>p t1 t2 g. None) ?p (Instance kernels_Linear_cls [], Instance InducingPoints_cls [])
                    (Some (mfn_Identity 2, PyNone)) None) (\<lambda>t. backend (adjoint t))
       \<and> expectation (Suc (Suc 0)) ?reg ?p (mfn_Identity 2, PyNone)
           (Some (Instance kernels_Linear_cls [], Instance InducingPoints_cls [])) (Some 20)
           = seq (expectation (Suc 0) ?reg ?p (Instance kernels_Linear_cls [], Instance InducingPoints_cls [])
                    (Some (mfn_Identity 2, PyNone)) None)
               (\<lambda>t. backend (adjoint t))"
    by (rule identity_linear_is_adjoint)
       (simp_all add: mfn_Identity_def outranks_def dispatch_defs cls_defs)
  then have "expectation (Suc (Suc 0)) ?reg ?p (mfn_Identity 2, PyNone)
           (Some (Instance kernels_Linear_cls [], Instance InducingPoints_cls [])) (Some 20)
           = seq (expectation (Suc 0) ?reg ?p (Instance kernels_Linear_cls [], Instance InducingPoints_cls [])
                    (Some (mfn_Identity 2, PyNone)) None)
               (\<lambda>t. backend (adjoint t))"
    by (rule conjunct2)
  also have "\<dots> = Some (Inr (Tensor [1, 2, 1] [3, 4]))"
    by code_simp
  finally show ?thesis .
qed

text \<open>
  C3. For a DiagonalGaussian with mean \<open>m\<close> and variances \<open>v\<close> of shape \<open>N \<times> D\<close>, and
  terms whose features are features or \<^verbatim>\<open>None\<close>, where no more specific rule is registered
  for the call: the expectation is the expectation, one level deeper, of the same terms on
  the Gaussian with mean \<open>m\<close> and the \<open>N \<times> D \<times> D\<close> covariance that has \<open>v[n, i]\<close> at
  \<open>[n, i, i]\<close> and 0 elsewhere.
\<close>

theorem diagonal_fallback_converts:
  fixes obj1 feat1 :: "'a::semiring_1 obj"
  assumes v: "shape v = [N, D]"
    and f1: "is_feature_or_None feat1"
    and f2: "is_feature_or_None (snd (second_term term2))"
    and extra: "outranks
           [DiagonalGaussian_cls, object_cls, feature_pattern (class_of feat1), object_cls,
            feature_pattern (class_of (snd (second_term term2)))]
           extra (signature_of (DiagonalGaussian m v) (obj1, feat1) (second_term term2))"
  shows "E_DiagonalGaussian E (DiagonalGaussian m v) obj1 feat1 obj2 feat2 nghp
           = E (Gaussian m (mk [N, D, D]
                  (\<lambda>idx. if idx ! 1 = idx ! 2 then at v [idx ! 0, idx ! 1] else 0)))
               (obj1, feat1) (Some (obj2, feat2)) nghp
       \<and> expectation (Suc n) (misc_rules @ extra) (DiagonalGaussian m v) (obj1, feat1) term2 nghp
           = expectation n (misc_rules @ extra)
               (Gaussian m (mk [N, D, D]
                  (\<lambda>idx. if idx ! 1 = idx ! 2 then at v [idx ! 0, idx ! 1] else 0)))
               (obj1, feat1) term2 nghp"
proof -
  let ?g = "Gaussian m (mk [N, D, D] (\<lambda>idx. if idx ! 1 = idx ! 2 then at v [idx ! 0, idx ! 1] else 0))"
  have rule: "E_DiagonalGaussian E' (DiagonalGaussian m v) o1 g1 o2 g2 nghp
      = E' ?g (o1, g1) (Some (o2, g2)) nghp" for E' o1 g1 o2 g2
    by (simp add: E_DiagonalGaussian_def diag_matrix [OF v])
  from f1 f2 have c: "candidates (misc_rules :: 'a registry)
      (signature_of (DiagonalGaussian m v) (obj1, feat1) (second_term term2))
     = [] @ [([DiagonalGaussian_cls, object_cls, feature_pattern (class_of feat1), object_cls,
            feature_pattern (class_of (snd (second_term term2)))], E_DiagonalGaussian)]"
    by (simp add: signature_of_def is_feature_or_None_def candidates_misc_diagonal)
  from resolve_misc_extra [OF c _ extra]
  have "resolve (misc_rules @ extra)
      (signature_of (DiagonalGaussian m v) (obj1, feat1) (second_term term2)) = Some E_DiagonalGaussian"
    by simp
  then have "expectation (Suc n) (misc_rules @ extra) (DiagonalGaussian m v) (obj1, feat1) term2 nghp
      = expectation n (misc_rules @ extra) ?g (obj1, feat1) (Some (second_term term2)) nghp"
    by (simp add: rule)
  with rule show ?thesis by (simp only: expectation_second_term)
qed

theorem diagonal_fallback_converts_witness:
  "expectation (Suc (Suc 0))
     (misc_rules @
      [([Gaussian_cls, Kernel_cls, InducingPoints_cls, NoneType_cls, NoneType_cls],
        \<lambda>E p obj1 feat1 obj2 feat2 nghp. Some (Inr (cov p)))])
     (DiagonalGaussian (Tensor [1, 2] [1, 2]) (Tensor [1, 2] [5, 6]))
     (Instance [''Kernel'', ''RBF''] [], Instance InducingPoints_cls [])
     None None
   = Some (Inr (Tensor [1, 2, 2] [5, 0, 0, 6 :: int]))"
proof -
  let ?reg = "misc_rules @
      [([Gaussian_cls, Kernel_cls, InducingPoints_cls, NoneType_cls, NoneType_cls],
        \<lambda>E (p :: int dist) obj1 feat1 obj2 feat2 nghp. Some (Inr (cov p)))]"
  let ?t1 = "(Instance [''Kernel'', ''RBF''] [], Instance InducingPoints_cls []) :: int operand"
  let ?g = "Gaussian (Tensor [1, 2] [1, 2])
     (mk [1, 2, 2] (\<lambda>idx. if idx ! 1 = idx ! 2 then at (Tensor [1, 2] [5, 6 :: int]) [idx ! 0, idx ! 1] else 0))"
  have "E_DiagonalGaussian (\<lambda>p t1 t2 g. None)
          (DiagonalGaussian (Tensor [1, 2] [1, 2]) (Tensor [1, 2] [5, 6])) (fst ?t1) (snd ?t1) PyNone PyNone None
           = (\<lambda>p t1 t2 g. None) ?g (fst ?t1, snd ?t1) (Some (PyNone, PyNone)) None
       \<and> expectation (Suc (Suc 0)) ?reg
            (DiagonalGaussian (Tensor [1, 2] [1, 2]) (Tensor [1, 2] [5, 6])) (fst ?t1, snd ?t1) None None
           = expectation (Suc 0) ?reg ?g (fst ?t1, snd ?t1) None None"
    by (rule diagonal_fallback_converts)
       (simp_all add: is_feature_or_None_def second_term_def signature_of_def outranks_def
          feature_pattern_def dispatch_defs cls_defs)
  then have "expectation (Suc (Suc 0)) ?reg
            (DiagonalGaussian (Tensor [1, 2] [1, 2]) (Tensor [1, 2] [5, 6])) (fst ?t1, snd ?t1) None None
           = expectation (Suc 0) ?reg ?g (fst ?t1, snd ?t1) None None"
    by (rule conjunct2)
  also have "\<dots> = Some (Inr (Tensor [1, 2, 2] [5, 0, 0, 6]))"
    by code_simp
  finally show ?thesis by (simp only: fst_conv snd_conv)
qed

text \<open>
  C4. For a MarkovGaussian with a mean of \<open>N\<close> steps and a covariance with at least one
  block, where no more specific rule is registered for the call: with the second term
  absent the expectation is that of the first term on the Gaussian of the first \<open>N - 1\<close>
  steps (\<^verbatim>\<open>mu[:-1]\<close>, \<^verbatim>\<open>cov[0, :-1]\<close>); with the first term absent it is that of the second
  term, as a first term, on the Gaussian of the last \<open>N - 1\<close> steps (\<^verbatim>\<open>mu[1:]\<close>,
  \<^verbatim>\<open>cov[0, 1:]\<close>).
\<close>

theorem markov_fallback_single_term:
  fixes obj1 feat1 obj2 feat2 :: "'a::semiring_1 obj"
  assumes m: "wf_tensor m" "shape m = N # ms"
    and cv: "wf_tensor cv" "shape cv = Suc B # N' # cs"
    and f1: "is_feature_or_None feat1"
    and extra1: "outranks
           [MarkovGaussian_cls, object_cls, feature_pattern (class_of feat1), object_cls, NoneType_cls]
           extra [MarkovGaussian_cls, class_of obj1, class_of feat1, NoneType_cls, NoneType_cls]"
    and obj2: "obj2 \<noteq> PyNone"
    and f2: "is_feature_or_None feat2"
    and extra2: "outranks
           [MarkovGaussian_cls, object_cls, NoneType_cls, object_cls, feature_pattern (class_of feat2)]
           extra [MarkovGaussian_cls, NoneType_cls, NoneType_cls, class_of obj2, class_of feat2]"
  shows "E_MarkovGaussian E (MarkovGaussian m cv) obj1 feat1 PyNone PyNone nghp
           = E (first_steps m cv) (obj1, feat1) None nghp
       \<and> E_MarkovGaussian E (MarkovGaussian m cv) PyNone PyNone obj2 feat2 nghp
           = E (last_steps m cv) (obj2, feat2) None nghp
       \<and> expectation (Suc n) (misc_rules @ extra) (MarkovGaussian m cv) (obj1, feat1) None nghp
           = expectation n (misc_rules @ extra) (first_steps m cv) (obj1, feat1) None nghp
       \<and> expectation (Suc n) (misc_rules @ extra) (MarkovGaussian m cv) (PyNone, PyNone)
             (Some (obj2, feat2)) nghp
           = expectation n (misc_rules @ extra) (last_steps m cv) (obj2, feat2) None nghp"
proof -
  have r1: "E_MarkovGaussian E' (MarkovGaussian m cv) obj1 feat1 PyNone PyNone nghp
           = E' (first_steps m cv) (obj1, feat1) None nghp" for E'
    using markov_slices(1) [OF m cv, where k = "\<lambda>g. E' g (obj1, feat1) None nghp"]
    by (simp add: E_MarkovGaussian_def)
  have r2: "E_MarkovGaussian E' (MarkovGaussian m cv) PyNone PyNone obj2 feat2 nghp
           = E' (last_steps m cv) (obj2, feat2) None nghp" for E'
    using obj2 markov_slices(2) [OF m cv, where k = "\<lambda>g. E' g (obj2, feat2) None nghp"]
    by (simp add: E_MarkovGaussian_def)
  from f1 have c1: "candidates (misc_rules :: 'a registry)
      [MarkovGaussian_cls, class_of obj1, class_of feat1, NoneType_cls, NoneType_cls]
     = [] @ [([MarkovGaussian_cls, object_cls, feature_pattern (class_of feat1), object_cls, NoneType_cls],
              E_MarkovGaussian)]"
    by (simp add: is_feature_or_None_def candidates_misc_markov_term1)
  from resolve_misc_extra [OF c1 _ extra1]
  have d1: "expectation (Suc n) (misc_rules @ extra) (MarkovGaussian m cv) (obj1, feat1) None nghp
           = expectation n (misc_rules @ extra) (first_steps m cv) (obj1, feat1) None nghp"
    by (simp add: expectation_Suc second_term_def r1 del: expectation.simps)
  from f2 have c2: "candidates (misc_rules :: 'a registry)
      [MarkovGaussian_cls, NoneType_cls, NoneType_cls, class_of obj2, class_of feat2]
     = [] @ [([MarkovGaussian_cls, object_cls, NoneType_cls, object_cls, feature_pattern (class_of feat2)],
              E_MarkovGaussian)]"
    by (simp add: is_feature_or_None_def candidates_misc_markov_term2)
  from resolve_misc_extra [OF c2 _ extra2]
  have d2: "expectation (Suc n) (misc_rules @ extra) (MarkovGaussian m cv) (PyNone, PyNone)
             (Some (obj2, feat2)) nghp
           = expectation n (misc_rules @ extra) (last_steps m cv) (obj2, feat2) None nghp"
    by (simp add: expectation_Suc second_term_def r2 del: expectation.simps)
  from r1 r2 d1 d2 show ?thesis by (intro conjI)
qed

theorem markov_fallback_single_term_witness:
  "expectation (Suc (Suc 0))
     (misc_rules @
      [([Gaussian_cls, Kernel_cls, InducingPoints_cls, NoneType_cls, NoneType_cls],
        \<lambda>E p obj1 feat1 obj2 feat2 nghp. Some (Inr (cov p)))])
     (MarkovGaussian (Tensor [3, 1] [1, 2, 3]) (Tensor [2, 3, 1, 1] [10, 20, 30, 40, 50, 60]))
     (Instance [''Kernel'', ''RBF''] [], Instance InducingPoints_cls [])
     None None
   = Some (Inr (Tensor [2, 1, 1] [10, 20 :: int]))
   \<and> expectation (Suc (Suc 0))
     (misc_rules @
      [([Gaussian_cls, Kernel_cls, InducingPoints_cls, NoneType_cls, NoneType_cls],
        \<lambda>E p obj1 feat1 obj2 feat2 nghp. Some (Inr (cov p)))])
     (MarkovGaussian (Tensor [3, 1] [1, 2, 3]) (Tensor [2, 3, 1, 1] [10, 20, 30, 40, 50, 60]))
     (PyNone, PyNone)
     (Some (Instance [''Kernel'', ''RBF''] [], Instance InducingPoints_cls []))
     None
   = Some (Inr (Tensor [2, 1, 1] [20, 30 :: int]))"
proof -
  let ?reg = "misc_rules @
      [([Gaussian_cls, Kernel_cls, InducingPoints_cls, NoneType_cls, NoneType_cls],
        \<lambda>E (p :: int dist) obj1 feat1 obj2 feat2 nghp. Some (Inr (cov p)))]"
  let ?k = "Instance [''Kernel'', ''RBF''] [] :: int obj"
  let ?f = "Instance InducingPoints_cls [] :: int obj"
  let ?m = "Tensor [3, 1] [1, 2, 3 :: int]"
  let ?cv = "Tensor [2, 3, 1, 1] [10, 20, 30, 40, 50, 60 :: int]"
  have T: "E_MarkovGaussian (\<lambda>p t1 t2 g. None) (MarkovGaussian ?m ?cv) ?k ?f PyNone PyNone None
           = (\<lambda>p t1 t2 g. None) (first_steps ?m ?cv) (?k, ?f) None None
       \<and> E_MarkovGaussian (\<lambda>p t1 t2 g. None) (MarkovGaussian ?m ?cv) PyNone PyNone ?k ?f None
           = (\<lambda>p t1 t2 g. None) (last_steps ?m ?cv) (?k, ?f) None None
       \<and> expectation (Suc (Suc 0)) ?reg (MarkovGaussian ?m ?cv) (?k, ?f) None None
           = expectation (Suc 0) ?reg (first_steps ?m ?cv) (?k, ?f) None None
       \<and> expectation (Suc (Suc 0)) ?reg (MarkovGaussian ?m ?cv) (PyNone, PyNone) (Some (?k, ?f)) None
           = expectation (Suc 0) ?reg (last_steps ?m ?cv) (?k, ?f) None None"
    by (rule markov_fallback_single_term [where N = 3 and ms = "[1]" and B = 1 and N' = 3 and cs = "[1, 1]"])
       (simp_all add: wf_tensor_def is_feature_or_None_def outranks_def
          feature_pattern_def dispatch_defs cls_defs)
  have A: "expectation (Suc 0) ?reg (first_steps ?m ?cv) (?k, ?f) None None
      = Some (Inr (Tensor [2, 1, 1] [10, 20]))"
    by code_simp
  have B: "expectation (Suc 0) ?reg (last_steps ?m ?cv) (?k, ?f) None None
      = Some (Inr (Tensor [2, 1, 1] [20, 30]))"
    by code_simp
  from T [THEN conjunct2, THEN conjunct2, THEN conjunct1] A
       T [THEN conjunct2, THEN conjunct2, THEN conjunct2] B
  show ?thesis by (simp only: simp_thms)
qed

text \<open>
  C5. With both terms present the MarkovGaussian rule does re-dispatch the full pair: it
  calls \<^verbatim>\<open>expectation\<close> again with the arguments it was resolved for. But whenever the
  dispatcher resolves that call to this rule, the call does not return at any recursion
  depth; a more specific Markov rule would have been resolved in the first place.
\<close>

theorem markov_fallback_both_terms_never_returns:
  assumes "obj1 \<noteq> PyNone" and "obj2 \<noteq> PyNone"
    and "resolve reg (signature_of p (obj1, feat1) (obj2, feat2)) = Some E_MarkovGaussian"
  shows "E_MarkovGaussian E p obj1 feat1 obj2 feat2 nghp
           = E p (obj1, feat1) (Some (obj2, feat2)) nghp
       \<and> expectation n reg p (obj1, feat1) (Some (obj2, feat2)) nghp = None"
proof
  from assms(1,2) show "E_MarkovGaussian E p obj1 feat1 obj2 feat2 nghp
      = E p (obj1, feat1) (Some (obj2, feat2)) nghp"
    by (simp add: E_MarkovGaussian_def)
  show "expectation n reg p (obj1, feat1) (Some (obj2, feat2)) nghp = None"
  proof (induction n)
    case 0
    show ?case by simp
  next
    case (Suc n)
    with assms show ?case
      by (simp add: second_term_def E_MarkovGaussian_def Let_def)
  qed
qed

theorem markov_fallback_both_terms_never_returns_witness:
  "\<forall>n. expectation n misc_rules
     (MarkovGaussian (Tensor [2, 1] [1, 2]) (Tensor [2, 2, 1, 1] [1, 1, 0, 0]))
     (Instance [''Kernel'', ''RBF''] [], Instance InducingPoints_cls [])
     (Some (Instance [''Kernel'', ''RBF''] [], Instance InducingPoints_cls []))
     None
   = (None :: int tensor outcome)"
proof
  fix n
  show "expectation n misc_rules
     (MarkovGaussian (Tensor [2, 1] [1, 2]) (Tensor [2, 2, 1, 1] [1, 1, 0, 0]))
     (Instance [''Kernel'', ''RBF''] [], Instance InducingPoints_cls [])
     (Some (Instance [''Kernel'', ''RBF''] [], Instance InducingPoints_cls []))
     None
   = (None :: int tensor outcome)"
    by (rule markov_fallback_both_terms_never_returns [THEN conjunct2])
       (simp_all add: signature_of_def resolve_def dispatch_defs cls_defs)
qed

text \<open>
  C6. For a Gaussian with mean of shape \<open>N \<times> D\<close>, a Linear mean function with \<open>A\<close> of
  shape \<open>D \<times> Q\<close> and \<open>b\<close> of shape \<open>Q\<close>, when the Identity-mean expectation returns
  \<open>exKxz\<close> of shape \<open>N \<times> D \<times> M\<close> and the kernel expectation returns \<open>eKxz\<close> of shape
  \<open>N \<times> M\<close>: the Linear-mean rule returns the \<open>N \<times> Q \<times> M\<close> tensor whose entry
  \<open>[n, q, j]\<close> is \<open>\<Sum>d. A[d, q] * exKxz[n, d, j] + b[q] * eKxz[n, j]\<close>.
\<close>

theorem linear_mean_rule_value:
  fixes A b exKxz eKxz :: "'a::semiring_1 tensor"
  assumes mu: "shape m = [N, D]"
    and A: "shape A = [D, Q]" and b: "shape b = [Q]"
    and ex: "E (Gaussian m c) (mfn_Identity D, PyNone) (Some (kern, feature)) nghp = Some (Inr exKxz)"
    and exs: "shape exKxz = [N, D, M]"
    and e: "E (Gaussian m c) (kern, feature) None nghp = Some (Inr eKxz)"
    and es: "shape eKxz = [N, M]"
  shows "E_Linear_Kernel E (Gaussian m c) (mfn_Linear A b) PyNone kern feature nghp
     = Some (Inr (mk [N, Q, M] (\<lambda>idx.
         let n = idx ! 0; q = idx ! 1; j = idx ! 2
         in (\<Sum>d\<leftarrow>[0..<D]. at A [d, q] * at exKxz [n, d, j]) + at b [q] * at eKxz [n, j])))"
proof -
  have 1: "index_None_all_all A = Inr (Tensor (1 # shape A) (data A))"
    by (simp add: index_None_all_all_def rank_def A)
  have 2: "index_None_all_None b = Inr (Tensor [1, Q, 1] (data b))"
    by (simp add: index_None_all_None_def b)
  have 3: "index_all_None_all eKxz = Inr (Tensor [N, 1, M] (data eKxz))"
    by (simp add: index_all_None_all_def es)
  show ?thesis
    by (simp add: E_Linear_Kernel_def shape_at_def rank_def mu ex e 1 2 3
        tile_batch [OF A] matmul_batch [OF exs] outer_b [OF b es] tensor_add_same_shape Let_def
        backend_def)
qed

theorem linear_mean_rule_value_witness:
  "E_Linear_Kernel
     (\<lambda>p term1 term2 nghp.
        case term2 of None \<Rightarrow> Some (Inr (Tensor [1, 2] [5, 6]))
                    | Some t \<Rightarrow> Some (Inr (Tensor [1, 2, 2] [1, 2, 3, 4])))
     (Gaussian (Tensor [1, 2] [0, 0]) (Tensor [1, 2, 2] [1, 0, 0, 1]))
     (mfn_Linear (Tensor [2, 1] [1, 2]) (Tensor [1] [3])) PyNone
     (Instance [''Kernel'', ''RBF''] []) (Instance InducingPoints_cls []) None
   = Some (Inr (Tensor [1, 1, 2] [22, 28 :: int]))"
proof -
  let ?E = "\<lambda>(p :: int dist) (term1 :: int operand) (term2 :: int operand option) (nghp :: nat option).
        case term2 of None \<Rightarrow> Some (Inr (Tensor [1, 2] [5, 6 :: int]))
                    | Some t \<Rightarrow> Some (Inr (Tensor [1, 2, 2] [1, 2, 3, 4]))"
  have "E_Linear_Kernel ?E
     (Gaussian (Tensor [1, 2] [0, 0]) (Tensor [1, 2, 2] [1, 0, 0, 1]))
     (mfn_Linear (Tensor [2, 1] [1, 2]) (Tensor [1] [3])) PyNone
     (Instance [''Kernel'', ''RBF''] []) (Instance InducingPoints_cls []) None
   = Some (Inr (mk [1, 1, 2] (\<lambda>idx.
         let n = idx ! 0; q = idx ! 1; j = idx ! 2
         in (\<Sum>d\<leftarrow>[0..<2]. at (Tensor [2, 1] [1, 2]) [d, q] * at (Tensor [1, 2, 2] [1, 2, 3, 4]) [n, d, j])
            + at (Tensor [1] [3]) [q] * at (Tensor [1, 2] [5, 6 :: int]) [n, j])))"
    by (rule linear_mean_rule_value) simp_all
  also have "mk [1, 1, 2] (\<lambda>idx.
         let n = idx ! 0; q = idx ! 1; j = idx ! 2
         in (\<Sum>d\<leftarrow>[0..<2]. at (Tensor [2, 1] [1, 2]) [d, q] * at (Tensor [1, 2, 2] [1, 2, 3, 4]) [n, d, j])
            + at (Tensor [1] [3]) [q] * at (Tensor [1, 2] [5, 6 :: int]) [n, j])
      = Tensor [1, 1, 2] [22, 28]"
    by code_simp
  finally show ?thesis .
qed

text \<open>
  C9. The transpose rule returns the same outcome for any two values of \<^verbatim>\<open>nghp\<close>,
  whatever \<^verbatim>\<open>expectation\<close> it calls; the adjoint rule passes \<^verbatim>\<open>nghp\<close> on, and there is an
  \<^verbatim>\<open>expectation\<close> for which its outcome differs between two values of \<^verbatim>\<open>nghp\<close>.
\<close>

theorem transpose_rule_ignores_nghp:
  "E_Identity_Linear E p mean none kern feature nghp = E_Identity_Linear E p mean none kern feature nghp'
   \<and> E_Kernel_MeanFunction E p kern feature mean none nghp
       = seq (E p (mean, PyNone) (Some (kern, feature)) nghp) (\<lambda>t. backend (adjoint t))
   \<and> (\<exists>E' p' k f m. E_Kernel_MeanFunction E' p' k f m PyNone (Some 1)
                     \<noteq> E_Kernel_MeanFunction E' (p' :: 'a dist) k f m PyNone None)"
proof -
  have "E_Kernel_MeanFunction (\<lambda>p t1 t2 g. if g = None then None else Some (Inl NoMatchingRule))
          (Gaussian (Tensor [] []) (Tensor [] []) :: 'a dist) PyNone PyNone PyNone PyNone (Some 1)
      \<noteq> E_Kernel_MeanFunction (\<lambda>p t1 t2 g. if g = None then None else Some (Inl NoMatchingRule))
          (Gaussian (Tensor [] []) (Tensor [] [])) PyNone PyNone PyNone PyNone None"
    by (simp add: E_Kernel_MeanFunction_def)
  then have c: "\<exists>E' p' k f m. E_Kernel_MeanFunction E' p' k f m PyNone (Some 1)
                     \<noteq> E_Kernel_MeanFunction E' (p' :: 'a dist) k f m PyNone None"
    by blast
  have a: "E_Identity_Linear E p mean none kern feature nghp
      = E_Identity_Linear E p mean none kern feature nghp'"
    by (simp add: E_Identity_Linear_def)
  have b: "E_Kernel_MeanFunction E p kern feature mean none nghp
       = seq (E p (mean, PyNone) (Some (kern, feature)) nghp) (\<lambda>t. backend (adjoint t))"
    by (simp add: E_Kernel_MeanFunction_def)
  from a b c show ?thesis by (intro conjI)
qed

text \<open>
  C10. For a Gaussian with a mean of rank at least 2, an InducingPoints feature and a
  kernel that is not a Linear kernel and has no more specific Identity-mean rule: the
  Linear-mean rule raises \<open>NotImplementedError\<close>, because its first call,
  \<^verbatim>\<open>expectation(p, Identity(D), (kernel, feature))\<close>, resolves to the guard; and so does
  \<^verbatim>\<open>expectation(p, Linear(A, b), (kernel, feature))\<close> when it resolves to the Linear-mean
  rule. The kernel expectation is never asked for.
\<close>

theorem linear_mean_needs_identity_rule:
  fixes kern feature :: "'a::semiring_1 obj"
  assumes mu: "shape m = N # D # ds"
    and kern: "issubclass (class_of kern) Kernel_cls"
    and generic: "\<not> issubclass (class_of kern) kernels_Linear_cls"
    and feature: "issubclass (class_of feature) InducingPoints_cls"
    and guard: "outranks [Gaussian_cls, mfn_Identity_cls, NoneType_cls, Kernel_cls, InducingPoints_cls]
           extra [Gaussian_cls, mfn_Identity_cls, NoneType_cls, class_of kern, class_of feature]"
    and linear: "outranks [Gaussian_cls, mfn_Linear_cls, NoneType_cls, Kernel_cls, InducingPoints_cls]
           extra [Gaussian_cls, mfn_Linear_cls, NoneType_cls, class_of kern, class_of feature]"
  shows "E_Linear_Kernel (expectation (Suc n) (misc_rules @ extra)) (Gaussian m c) linear_mean PyNone
           kern feature nghp = Some (Inl NotImplementedError)
       \<and> expectation (Suc (Suc n)) (misc_rules @ extra) (Gaussian m c) (mfn_Linear A b, PyNone)
           (Some (kern, feature)) nghp = Some (Inl NotImplementedError)"
proof -
  have id: "issubclass (class_of (mfn_Identity D :: 'a obj)) mfn_Identity_cls"
    by (simp add: mfn_Identity_def)
  have cls: "class_of (mfn_Identity D :: 'a obj) = mfn_Identity_cls"
    by (simp add: mfn_Identity_def)
  from guard have "outranks [Gaussian_cls, mfn_Identity_cls, NoneType_cls, Kernel_cls, InducingPoints_cls]
       extra [Gaussian_cls, class_of (mfn_Identity D :: 'a obj), NoneType_cls, class_of kern, class_of feature]"
    by (simp add: cls)
  from resolve_identity_kernel [OF id kern generic feature this]
  have g: "expectation (Suc n) (misc_rules @ extra) (Gaussian m c) (mfn_Identity D, PyNone)
      (Some (kern, feature)) nghp = Some (Inl NotImplementedError)"
    by (simp add: expectation_Suc second_term_def E_Identity_Kernel_def del: expectation.simps)
  have r: "E_Linear_Kernel (expectation (Suc n) (misc_rules @ extra)) (Gaussian m c) lm PyNone
           kern feature nghp = Some (Inl NotImplementedError)" for lm
    by (simp add: E_Linear_Kernel_def shape_at_def rank_def mu g del: expectation.simps)
  have "expectation (Suc (Suc n)) (misc_rules @ extra) (Gaussian m c) (mfn_Linear A b, PyNone)
           (Some (kern, feature)) nghp = Some (Inl NotImplementedError)"
    using resolve_linear_kernel [OF kern feature linear] r
    by (subst expectation_Suc) (simp add: second_term_def mfn_Linear_def del: expectation.simps)
  with r show ?thesis by simp
qed

theorem linear_mean_needs_identity_rule_witness:
  "expectation (Suc (Suc 0))
     (misc_rules @
      [([Gaussian_cls, Kernel_cls, InducingPoints_cls, NoneType_cls, NoneType_cls],
        \<lambda>E p obj1 feat1 obj2 feat2 nghp. Some (Inr (Tensor [1, 1] [5])))])
     (Gaussian (Tensor [1, 2] [1, 2]) (Tensor [1, 2, 2] [1, 0, 0, 1]))
     (mfn_Linear (Tensor [2, 1] [1, 2]) (Tensor [1] [3]), PyNone)
     (Some (Instance [''Kernel'', ''RBF''] [], Instance InducingPoints_cls []))
     None
   = (Some (Inl NotImplementedError) :: int tensor outcome)"
proof -
  let ?reg = "misc_rules @
      [([Gaussian_cls, Kernel_cls, InducingPoints_cls, NoneType_cls, NoneType_cls],
        \<lambda>E p obj1 feat1 obj2 feat2 nghp. Some (Inr (Tensor [1, 1] [5 :: int])))]"
  let ?p = "Gaussian (Tensor [1, 2] [1, 2]) (Tensor [1, 2, 2] [1, 0, 0, 1 :: int])"
  have "E_Linear_Kernel (expectation (Suc 0) ?reg) ?p PyNone PyNone
           (Instance [''Kernel'', ''RBF''] []) (Instance InducingPoints_cls []) None
          = Some (Inl NotImplementedError)
       \<and> expectation (Suc (Suc 0)) ?reg ?p (mfn_Linear (Tensor [2, 1] [1, 2]) (Tensor [1] [3]), PyNone)
           (Some (Instance [''Kernel'', ''RBF''] [], Instance InducingPoints_cls [])) None
          = Some (Inl NotImplementedError)"
    by (rule linear_mean_needs_identity_rule [where N = 1 and D = 2 and ds = "[]"])
       (simp_all add: outranks_def dispatch_defs cls_defs)
  then show ?thesis by (rule conjunct2)
qed

end
